theory Spec2Isabelle
  imports Main "HOL-Library.Char_ord" "HOL-Library.List_Lexorder"
begin

section \<open>Hashes, paths, snapshot records\<close>

text \<open>
  A \<open>*snapshot.Hash\<close> of the Go code is a \<open>Hash option\<close>: \<open>None\<close> is the nil pointer.
  The hash itself is the pair of the name of the hash function and the hexadecimal digest.
\<close>

type_synonym Path = string

datatype Hash = Hash (hashFunction: string) (hexContents: string)

text \<open>
  Modelled from the spec: \<open>Hash.String\<close> is not among the sources. The textual form of a
  hash is \<open><algo>:<hex>\<close>.
\<close>

definition HashString :: "Hash \<Rightarrow> string" where
  "HashString h = hashFunction h @ '':'' @ hexContents h"

text \<open>
  Modelled from the spec: \<open>Hash.Equal\<close> is not among the sources. Two hashes are equal iff
  both components match; the null value is equal to itself only. The method is called on
  nil receivers by \<open>mergeWithBase\<close>.
\<close>

definition Equal :: "Hash option \<Rightarrow> Hash option \<Rightarrow> bool" where
  "Equal h other =
     (case h of
        None \<Rightarrow> (case other of None \<Rightarrow> True | Some _ \<Rightarrow> False)
      | Some a \<Rightarrow> (case other of None \<Rightarrow> False
                    | Some b \<Rightarrow> hashFunction a = hashFunction b \<and> hexContents a = hexContents b))"

text \<open>The snapshot record \<open>snapshot.File\<close>; \<open>Parents\<close> is a \<open>[]*Hash\<close>.\<close>

record File =
  Mode :: string
  Contents :: "Hash option"
  Parents :: "Hash option list"

text \<open>
  \<open>snapshot.Tree\<close> is a Go map from a name to a child hash. It is kept as an association
  list with \<open>map_of\<close> as lookup, so that its keys can be enumerated; an assignment
  \<open>t[p] = h\<close> replaces the entry of \<open>p\<close>.
\<close>

type_synonym Tree = "(Path \<times> Hash) list"

definition treeSet :: "Path \<Rightarrow> Hash \<Rightarrow> Tree \<Rightarrow> Tree" where
  "treeSet p h t = (p, h) # filter (\<lambda>e. fst e \<noteq> p) t"

definition treeKeys :: "Tree \<Rightarrow> Path list" where
  "treeKeys t = remdups (map fst t)"

text \<open>
  Modelled from the spec: \<open>Tree.String\<close> is not among the sources. The canonical
  serialization has one line \<open><name>\t<child_hash>\n\<close> per entry, the entries sorted
  ascending by name under byte-wise comparison.
\<close>

definition treeLine :: "Tree \<Rightarrow> Path \<Rightarrow> string" where
  "treeLine t p =
     (case map_of t p of
        None \<Rightarrow> []
      | Some h \<Rightarrow> p @ [CHR 0x09] @ HashString h @ [CHR 0x0A])"

definition TreeString :: "Tree \<Rightarrow> string" where
  "TreeString t = concat (map (treeLine t) (sort (treeKeys t)))"

text \<open>
  Modelled from the spec: \<open>Path.Join\<close> is not among the sources. It concatenates name
  components using \<open>/\<close>.
\<close>

definition Join :: "Path \<Rightarrow> Path \<Rightarrow> Path" where
  "Join a b = a @ ''/'' @ b"

section \<open>Error messages\<close>

text \<open>
  A Go \<open>error\<close> is observed through its message only, so an error is the string that
  \<open>Error()\<close> returns. \<open>quote\<close> is the verb \<open>%q\<close> of \<open>fmt\<close> (\<open>strconv.Quote\<close>) on
  ASCII text: double quotes around the text, the double quote and the backslash escaped
  with a backslash, the control characters written as \<open>\a\<close>, \<open>\b\<close>, \<open>\f\<close>, \<open>\n\<close>, \<open>\r\<close>,
  \<open>\t\<close>, \<open>\v\<close> or as \<open>\x\<close> and two hexadecimal digits. Bytes from 0x80 on are left as
  they are, as Go leaves the printable characters of valid UTF-8 (it escapes the others).
\<close>

definition hexDigit :: "nat \<Rightarrow> char" where
  "hexDigit n = (if n < 16 then ''0123456789abcdef'' ! n else CHR ''?'')"

definition quoteChar :: "char \<Rightarrow> string" where
  "quoteChar c =
     (if c = CHR 0x22 \<or> c = CHR 0x5C then [CHR 0x5C, c]
      else if c = CHR 0x07 then [CHR 0x5C, CHR ''a'']
      else if c = CHR 0x08 then [CHR 0x5C, CHR ''b'']
      else if c = CHR 0x0C then [CHR 0x5C, CHR ''f'']
      else if c = CHR 0x0A then [CHR 0x5C, CHR ''n'']
      else if c = CHR 0x0D then [CHR 0x5C, CHR ''r'']
      else if c = CHR 0x09 then [CHR 0x5C, CHR ''t'']
      else if c = CHR 0x0B then [CHR 0x5C, CHR ''v'']
      else if (of_char c :: nat) < 32 \<or> (of_char c :: nat) = 127
      then [CHR 0x5C, CHR ''x'', hexDigit ((of_char c :: nat) div 16),
            hexDigit ((of_char c :: nat) mod 16)]
      else [c])"

definition quote :: "string \<Rightarrow> string" where
  "quote s = [CHR 0x22] @ concat (map quoteChar s) @ [CHR 0x22]"

definition quoteHash :: "Hash option \<Rightarrow> string" where
  "quoteHash h = (case h of None \<Rightarrow> ''<nil>'' | Some x \<Rightarrow> quote (HashString x))"

definition deletedMsg :: "Path \<Rightarrow> string" where
  "deletedMsg subPath =
     ''the nested snapshot under the path '' @ quote subPath @
     '' was deleted in either the source or destination snapshot, so the two snapshots have to be manually merged''"

definition rolledBackSourceMsg :: "Path \<Rightarrow> string" where
  "rolledBackSourceMsg subPath =
     ''nested changes under the path '' @ quote subPath @
     '' were rolled back in the source snapshot, so the two snapshots have to be manually merged''"

definition rolledBackDestMsg :: "Path \<Rightarrow> string" where
  "rolledBackDestMsg subPath =
     ''nested changes under the path '' @ quote subPath @
     '' were rolled back in the destination snapshot, so the two snapshots have to be manually merged''"

definition readLogMsg :: "Hash option \<Rightarrow> string \<Rightarrow> string" where
  "readLogMsg h e = ''failure reading the log for '' @ quoteHash h @ '': '' @ e"

definition readSnapshotMsg :: "Hash \<Rightarrow> string \<Rightarrow> string" where
  "readSnapshotMsg h e =
     ''failure reading the file snapshot for '' @ quote (HashString h) @ '': '' @ e"

definition symlinkMsg :: "Path \<Rightarrow> string" where
  "symlinkMsg subPath =
     ''one or both versions of the snapshot at '' @ quote subPath @
     '' represent a symlink, so the two snapshots for that path have to be manually merged''"

definition readTreeMsg :: "Hash \<Rightarrow> string \<Rightarrow> string" where
  "readTreeMsg h e =
     ''failure reading the tree for the snapshot '' @ quote (HashString h) @ '': '' @ e"

definition modeMismatchMsg :: "Path \<Rightarrow> string \<Rightarrow> string \<Rightarrow> string" where
  "modeMismatchMsg subPath srcMode destMode =
     ''file permissions for '' @ quote subPath @
     '' do not match between versions; source mode line: '' @ quote srcMode @
     '', destination mode line '' @ quote destMode @
     ''. Manually update the permissions for the source to match what you want for the merge result, and then re-run the merge with the option to force using the source permissions''"

definition storeTreeMsg :: "string \<Rightarrow> string" where
  "storeTreeMsg e = ''failure storing the contents of a merged tree: '' @ e"

definition storeMergedMsg :: "string \<Rightarrow> string" where
  "storeMergedMsg e = ''failure storing the merged snapshot: '' @ e"

text \<open>\<open>strings.Join(xs, "\n")\<close>.\<close>

fun joinLines :: "string list \<Rightarrow> string" where
  "joinLines [] = []"
| "joinLines [x] = x"
| "joinLines (x # y # ys) = x @ [CHR 0x0A] @ joinLines (y # ys)"

section \<open>The merge of two snapshots with a base\<close>

text \<open>
  \<open>mergeWithBase\<close> works on a \<open>*storage.LocalFiles\<close>, whose methods are not among the
  sources, as \<open>log.ReadLog\<close>, \<open>mergeWithHelper\<close>, \<open>File.String\<close>, \<open>File.IsDir\<close> and
  \<open>File.IsLink\<close> are not: they are the fields of the record below, parameters of the model.
  The store is content addressed and its objects never change, so what the read operations
  give for a hash does not depend on the objects a merge has stored meanwhile, and the
  hash \<open>StoreObject\<close> gives is a function of the bytes. A read or a store either fails with
  a message (\<open>Inl\<close>) or gives its value (\<open>Inr\<close>).

  \<open>rangeOrder\<close> is the order in which the Go runtime ranges over a map with the given
  keys: the language leaves it unspecified.
\<close>

record LocalFiles =
  ReadLog :: "Hash option \<Rightarrow> string + Hash option list"
  ReadSnapshot :: "Hash \<Rightarrow> string + File"
  ListDirectorySnapshotContents :: "Hash \<Rightarrow> File \<Rightarrow> string + Tree"
  StoreObject :: "string \<Rightarrow> string + Hash"
  FileString :: "File \<Rightarrow> string"
  IsDir :: "File \<Rightarrow> bool"
  IsLink :: "File \<Rightarrow> bool"
  mergeWithHelper ::
    "Path \<Rightarrow> string \<Rightarrow> Hash option \<Rightarrow> Hash \<Rightarrow> Hash \<Rightarrow> Hash option \<times> string option"
  rangeOrder :: "Path list \<Rightarrow> Path list"

text \<open>The pair \<open>(*snapshot.Hash, error)\<close> that the merge functions return.\<close>

type_synonym result = "Hash option \<times> string option"

text \<open>\<open>IsAncestor\<close>: the pair \<open>(bool, error)\<close> as a sum.\<close>

definition IsAncestor :: "LocalFiles \<Rightarrow> Hash option \<Rightarrow> Hash option \<Rightarrow> string + bool" where
  "IsAncestor s base h =
     (if base = None then Inr True
      else (case ReadLog s h of
              Inl err \<Rightarrow> Inl (readLogMsg h err)
            | Inr snapshotLog \<Rightarrow> Inr (list_ex (\<lambda>e. Equal e base) snapshotLog)))"

text \<open>
  The loop over the sub-paths of a directory merge. \<open>rec p\<close> is the recursive call for the
  child \<open>p\<close>; it is \<open>None\<close> when the recursion did not return. The accumulator is the
  merged tree and the list of nested errors.
\<close>

fun mergeChildren ::
  "(Path \<Rightarrow> result option) \<Rightarrow> Path list \<Rightarrow> Tree \<times> string list \<Rightarrow> (Tree \<times> string list) option"
where
  "mergeChildren rec [] acc = Some acc"
| "mergeChildren rec (p # ps) (mergedTree, nestedErrors) =
     (case rec p of
        None \<Rightarrow> None
      | Some (mergedChild, err) \<Rightarrow>
          mergeChildren rec ps
            (case mergedChild of None \<Rightarrow> mergedTree | Some h \<Rightarrow> treeSet p h mergedTree,
             case err of None \<Rightarrow> nestedErrors | Some e \<Rightarrow> nestedErrors @ [e]))"

text \<open>
  The part of \<open>mergeWithBase\<close> that follows the loading of the three trees: the loop, the
  comparison of the modes, and the construction of the merged snapshot.
\<close>

definition mergeDirectories ::
  "(Path \<Rightarrow> Hash option \<Rightarrow> Hash option \<Rightarrow> Hash option \<Rightarrow> result option) \<Rightarrow>
   LocalFiles \<Rightarrow> Path \<Rightarrow> Hash \<Rightarrow> Hash \<Rightarrow> File \<Rightarrow> File \<Rightarrow> Tree \<Rightarrow> Tree \<Rightarrow> Tree \<Rightarrow> bool \<Rightarrow>
   result option"
where
  "mergeDirectories rec s subPath src dest srcFile destFile baseTree srcTree destTree forceKeepMode =
     (case mergeChildren
             (\<lambda>p. rec (Join subPath p) (map_of baseTree p) (map_of srcTree p) (map_of destTree p))
             (rangeOrder s (remdups (map fst srcTree @ map fst destTree)))
             ([], [])
      of
        None \<Rightarrow> None
      | Some (mergedTree, childErrors) \<Rightarrow>
          (let nestedErrors =
                 (if Mode srcFile \<noteq> Mode destFile \<and> \<not> forceKeepMode
                  then childErrors @ [modeMismatchMsg subPath (Mode srcFile) (Mode destFile)]
                  else childErrors)
           in if nestedErrors \<noteq> [] then Some (None, Some (joinLines nestedErrors))
              else (case StoreObject s (TreeString mergedTree) of
                      Inl err \<Rightarrow> Some (None, Some (storeTreeMsg err))
                    | Inr contentsHash \<Rightarrow>
                        (case StoreObject s
                                (FileString s
                                   \<lparr>Mode = Mode srcFile, Contents = Some contentsHash,
                                    Parents = [Some src, Some dest]\<rparr>)
                         of
                           Inl err \<Rightarrow> Some (None, Some (storeMergedMsg err))
                         | Inr h \<Rightarrow> Some (Some h, None)))))"

text \<open>
  The part of \<open>mergeWithBase\<close> that follows the two ancestry tests: reading the three
  snapshots, the symlink test, the delegation to the helper, and the loading of the trees.
  \<open>ReadSnapshot\<close> of a hash that is not nil gives a File or an error. With a nil base
  there is no base File, and the base tree is empty (the spec: the base tree is the tree of
  the base File if that is a directory, else empty).
\<close>

definition mergeSnapshots ::
  "(Path \<Rightarrow> Hash option \<Rightarrow> Hash option \<Rightarrow> Hash option \<Rightarrow> result option) \<Rightarrow>
   LocalFiles \<Rightarrow> Path \<Rightarrow> Hash option \<Rightarrow> Hash \<Rightarrow> Hash \<Rightarrow> bool \<Rightarrow> result option"
where
  "mergeSnapshots rec s subPath base src dest forceKeepMode =
     (case ReadSnapshot s src of
        Inl err \<Rightarrow> Some (None, Some (readSnapshotMsg src err))
      | Inr srcFile \<Rightarrow>
     (case ReadSnapshot s dest of
        Inl err \<Rightarrow> Some (None, Some (readSnapshotMsg dest err))
      | Inr destFile \<Rightarrow>
     (case (case base of
              None \<Rightarrow> Inr None
            | Some b \<Rightarrow> (case ReadSnapshot s b of
                          Inl err \<Rightarrow> Inl (readSnapshotMsg b err)
                        | Inr f \<Rightarrow> Inr (Some (b, f))))
      of
        Inl msg \<Rightarrow> Some (None, Some msg)
      | Inr baseFile \<Rightarrow>
          if IsLink s srcFile \<or> IsLink s destFile then Some (None, Some (symlinkMsg subPath))
          else if \<not> (IsDir s srcFile \<and> IsDir s destFile)
          then Some (mergeWithHelper s subPath (Mode destFile) base src dest)
          else
     (case ListDirectorySnapshotContents s src srcFile of
        Inl err \<Rightarrow> Some (None, Some (readTreeMsg src err))
      | Inr srcTree \<Rightarrow>
     (case ListDirectorySnapshotContents s dest destFile of
        Inl err \<Rightarrow> Some (None, Some (readTreeMsg dest err))
      | Inr destTree \<Rightarrow>
     (case (case baseFile of
              None \<Rightarrow> Inr []
            | Some (b, f) \<Rightarrow>
                if IsDir s f
                then (case ListDirectorySnapshotContents s b f of
                        Inl err \<Rightarrow> Inl (readTreeMsg b err)
                      | Inr t \<Rightarrow> Inr t)
                else Inr [])
      of
        Inl msg \<Rightarrow> Some (None, Some msg)
      | Inr baseTree \<Rightarrow>
          mergeDirectories rec s subPath src dest srcFile destFile baseTree srcTree destTree
            forceKeepMode))))))"

text \<open>
  The body of \<open>mergeWithBase\<close> up to the ancestry tests, in the order of the source.
\<close>

definition mergeBody ::
  "(Path \<Rightarrow> Hash option \<Rightarrow> Hash option \<Rightarrow> Hash option \<Rightarrow> result option) \<Rightarrow>
   LocalFiles \<Rightarrow> Path \<Rightarrow> Hash option \<Rightarrow> Hash option \<Rightarrow> Hash option \<Rightarrow> bool \<Rightarrow> result option"
where
  "mergeBody rec s subPath base src dest forceKeepMode =
     (if Equal src dest then Some (src, None)
      else if Equal src base then Some (dest, None)
      else if Equal dest base then Some (src, None)
      else (case src of
              None \<Rightarrow> Some (None, Some (deletedMsg subPath))
            | Some srcH \<Rightarrow>
          (case dest of
              None \<Rightarrow> Some (None, Some (deletedMsg subPath))
            | Some destH \<Rightarrow>
          (case IsAncestor s base src of
              Inl err \<Rightarrow> Some (None, Some err)
            | Inr isAncestorSrc \<Rightarrow>
                if \<not> isAncestorSrc then Some (None, Some (rolledBackSourceMsg subPath))
                else
          (case IsAncestor s base dest of
              Inl err \<Rightarrow> Some (None, Some err)
            | Inr isAncestorDest \<Rightarrow>
                if \<not> isAncestorDest then Some (None, Some (rolledBackDestMsg subPath))
                else mergeSnapshots rec s subPath base srcH destH forceKeepMode)))))"

text \<open>
  \<open>mergeWithBase\<close> recurses into the trees it reads from the store, which the parameters
  do not bound. The first argument bounds the depth of the recursion: \<open>None\<close> says that
  the bound was reached, which is the only way for the result to be \<open>None\<close>.
\<close>

fun mergeWithBase ::
  "nat \<Rightarrow> LocalFiles \<Rightarrow> Path \<Rightarrow> Hash option \<Rightarrow> Hash option \<Rightarrow> Hash option \<Rightarrow> bool \<Rightarrow>
   result option"
where
  "mergeWithBase 0 s subPath base src dest forceKeepMode =
     mergeBody (\<lambda>_ _ _ _. None) s subPath base src dest forceKeepMode"
| "mergeWithBase (Suc n) s subPath base src dest forceKeepMode =
     mergeBody (\<lambda>p b a d. mergeWithBase n s p b a d forceKeepMode)
       s subPath base src dest forceKeepMode"

text \<open>The function the recursive calls of \<open>mergeWithBase n\<close> go to.\<close>

definition childMerge ::
  "nat \<Rightarrow> LocalFiles \<Rightarrow> bool \<Rightarrow> Path \<Rightarrow> Hash option \<Rightarrow> Hash option \<Rightarrow> Hash option \<Rightarrow>
   result option"
where
  "childMerge n s forceKeepMode =
     (case n of
        0 \<Rightarrow> (\<lambda>_ _ _ _. None)
      | Suc m \<Rightarrow> (\<lambda>p b a d. mergeWithBase m s p b a d forceKeepMode))"

text \<open>The hash and the error of the recursive call for a child.\<close>

definition mergedHashOf :: "(Path \<Rightarrow> result option) \<Rightarrow> Path \<Rightarrow> Hash option" where
  "mergedHashOf rec p = (case rec p of None \<Rightarrow> None | Some r \<Rightarrow> fst r)"

definition nestedErrorOf :: "(Path \<Rightarrow> result option) \<Rightarrow> Path \<Rightarrow> string option" where
  "nestedErrorOf rec p = (case rec p of None \<Rightarrow> None | Some r \<Rightarrow> snd r)"

text \<open>
  Two runs have the same outcome when both return or neither does, with the same hash, and
  both with an error or both without; the messages of the errors may differ.
\<close>

definition sameOutcome :: "result option \<Rightarrow> result option \<Rightarrow> bool" where
  "sameOutcome r1 r2 =
     (case r1 of
        None \<Rightarrow> r2 = None
      | Some x \<Rightarrow> (case r2 of None \<Rightarrow> False
                    | Some y \<Rightarrow> fst x = fst y \<and> (snd x = None) = (snd y = None)))"

text \<open>
  What Go promises of the order in which a map is ranged over: every key comes once.
\<close>

definition mapOrder :: "(Path list \<Rightarrow> Path list) \<Rightarrow> bool" where
  "mapOrder order = (\<forall>ks. distinct ks \<longrightarrow> distinct (order ks) \<and> set (order ks) = set ks)"

subsection \<open>A small store, for the examples\<close>

text \<open>
  A store with three directory snapshots \<open>base\<close>, \<open>src\<close> and \<open>dest\<close> and the snapshots
  of their children. In place of a digest the hash of an object has the bytes
  themselves. The argument is the order in which the maps are ranged over.
\<close>

definition sha :: "string \<Rightarrow> Hash" where
  "sha x = Hash ''sha256'' x"

definition exampleLog :: "Hash option \<Rightarrow> string + Hash option list" where
  "exampleLog h =
     (if h = Some (sha ''src'') then Inr [Some (sha ''src''), Some (sha ''base'')]
      else if h = Some (sha ''dest'') then Inr [Some (sha ''dest''), Some (sha ''base'')]
      else if h = Some (sha ''old'') then Inr [Some (sha ''old'')]
      else if h = Some (sha ''lost'') then Inl ''no such object''
      else Inr [h])"

definition exampleSnapshot :: "Hash \<Rightarrow> string + File" where
  "exampleSnapshot h =
     (if h = sha ''base'' \<or> h = sha ''src'' \<or> h = sha ''dest'' \<or> h = sha ''new''
      then Inr \<lparr>Mode = ''drwxr-xr-x'', Contents = Some (sha (''tree of '' @ hexContents h)),
                Parents = []\<rparr>
      else Inr \<lparr>Mode = ''-rw-r--r--'', Contents = Some (sha (''bytes of '' @ hexContents h)),
                Parents = []\<rparr>)"

definition exampleTree :: "Hash \<Rightarrow> File \<Rightarrow> string + Tree" where
  "exampleTree h f =
     (if h = sha ''base'' then Inr [(''a'', sha ''a0''), (''b'', sha ''b0'')]
      else if h = sha ''src'' then Inr [(''a'', sha ''a1''), (''b'', sha ''b1'')]
      else if h = sha ''dest'' then Inr [(''b'', sha ''b2''), (''a'', sha ''a2'')]
      else if h = sha ''new'' then Inr [(''c'', sha ''c1''), (''a'', sha ''a2'')]
      else Inl ''not a directory'')"

definition exampleFileString :: "File \<Rightarrow> string" where
  "exampleFileString f =
     Mode f @ [CHR 0x0A] @
     (case Contents f of None \<Rightarrow> [] | Some h \<Rightarrow> HashString h) @ [CHR 0x0A] @
     concat (map (\<lambda>p. (case p of None \<Rightarrow> [] | Some h \<Rightarrow> HashString h) @ [CHR 0x0A]) (Parents f))"

definition exampleFiles :: "(Path list \<Rightarrow> Path list) \<Rightarrow> LocalFiles" where
  "exampleFiles order =
     \<lparr>ReadLog = exampleLog,
      ReadSnapshot = exampleSnapshot,
      ListDirectorySnapshotContents = exampleTree,
      StoreObject = (\<lambda>bytes. Inr (sha bytes)),
      FileString = exampleFileString,
      IsDir = (\<lambda>f. take 1 (Mode f) = ''d''),
      IsLink = (\<lambda>f. take 1 (Mode f) = ''L''),
      mergeWithHelper = (\<lambda>p m b a d. (None, Some (''diff3 failed for '' @ p))),
      rangeOrder = order\<rparr>"

section \<open>Snapshots of the file system\<close>

text \<open>
  An \<open>error\<close> of the snapshot package is told apart by \<open>os.IsNotExist\<close> only; both
  kinds carry their message. \<open>fmt.Errorf\<close> with the verb \<open>%v\<close> gives an error of the
  second kind.
\<close>

datatype error = ErrNotExist string | ErrOther string

definition Error :: "error \<Rightarrow> string" where
  "Error e = (case e of ErrNotExist m \<Rightarrow> m | ErrOther m \<Rightarrow> m)"

definition IsNotExist :: "error option \<Rightarrow> bool" where
  "IsNotExist err = (case err of Some (ErrNotExist _) \<Rightarrow> True | _ \<Rightarrow> False)"

text \<open>
  What the code reads of an \<open>os.FileInfo\<close>: the mode line \<open>Mode().String()\<close>, the
  symlink bit of the mode, \<open>IsDir()\<close>, \<open>Size()\<close> and \<open>ModTime()\<close>. A \<open>time.Time\<close> is
  the number of nanoseconds since the zero time.
\<close>

record FileInfo =
  modeString :: string
  isSymlink :: bool
  isDir :: bool
  fileSize :: int
  modTime :: int

definition second :: int where
  "second = 1000000000"

text \<open>\<open>Time.Truncate\<close>: rounding down to a multiple of \<open>d\<close> since the zero time.\<close>

definition Truncate :: "int \<Rightarrow> int \<Rightarrow> int" where
  "Truncate t d = (if d \<le> 0 then t else t - t mod d)"

text \<open>
  The interface \<open>Storage\<close>: a record of functions on the state \<open>'s\<close> of the store. The
  methods that write return the new state; \<open>Exclude\<close>, \<open>FindSnapshot\<close> and
  \<open>PathInfoMatchesCache\<close> only read.
\<close>

record 's Storage =
  StoreObject' :: "'s \<Rightarrow> int \<Rightarrow> string \<Rightarrow> (Hash option \<times> error option) \<times> 's"
  Exclude :: "'s \<Rightarrow> Path \<Rightarrow> bool"
  FindSnapshot :: "'s \<Rightarrow> Path \<Rightarrow> Hash option \<times> File option \<times> error option"
  StoreSnapshot :: "'s \<Rightarrow> Path \<Rightarrow> File \<Rightarrow> (Hash option \<times> error option) \<times> 's"
  CachePathInfo :: "'s \<Rightarrow> Path \<Rightarrow> FileInfo \<Rightarrow> error option \<times> 's"
  PathInfoMatchesCache :: "'s \<Rightarrow> Path \<Rightarrow> FileInfo \<Rightarrow> bool"

text \<open>
  The calls of the writing methods are recorded: every function below returns its
  result, the new state of the store, and the list of the calls it made, in order.
\<close>

datatype call =
    CallStoreObject int string
  | CallStoreSnapshot Path File
  | CallCachePathInfo Path FileInfo

type_synonym snapshot = "Hash option \<times> File option \<times> error option"

definition lookupFailedMsg :: "error \<Rightarrow> string" where
  "lookupFailedMsg e = ''failure looking up the previous file snapshot: '' @ Error e"

definition saveFailedMsg :: "Path \<Rightarrow> error \<Rightarrow> string" where
  "saveFailedMsg p e =
     ''failure saving the latest file metadata for '' @ quote p @ '': '' @ Error e"

definition storeFailedMsg :: "error \<Rightarrow> string" where
  "storeFailedMsg e = ''failure storing an object: '' @ Error e"

definition snapshotFileMetadata ::
  "'s Storage \<Rightarrow> 's \<Rightarrow> Path \<Rightarrow> FileInfo \<Rightarrow> Hash option \<Rightarrow> snapshot \<times> 's \<times> call list"
where
  "snapshotFileMetadata s st p info contentsHash =
     (let modeLine = modeString info in
      case FindSnapshot s st p of (prevFileHash, prev, err) \<Rightarrow>
        (case (if IsNotExist err then None else err) of
           Some e \<Rightarrow> ((None, None, Some (ErrOther (lookupFailedMsg e))), st, [])
         | None \<Rightarrow>
             if (case prev of
                   None \<Rightarrow> False
                 | Some pf \<Rightarrow> Mode pf = modeLine \<and> Equal (Contents pf) contentsHash)
             then ((prevFileHash, prev, None), st, [])
             else
               (let f = \<lparr>Mode = modeLine, Contents = contentsHash,
                         Parents = (if prev \<noteq> None then [prevFileHash] else [])\<rparr>
                in case StoreSnapshot s st p f of
                     ((h, Some e), st') \<Rightarrow>
                       ((None, None, Some (ErrOther (saveFailedMsg p e))), st',
                        [CallStoreSnapshot p f])
                   | ((h, None), st') \<Rightarrow> ((h, Some f, None), st', [CallStoreSnapshot p f]))))"

definition readCached ::
  "'s Storage \<Rightarrow> 's \<Rightarrow> Path \<Rightarrow> FileInfo \<Rightarrow> Hash option \<times> File option \<times> bool"
where
  "readCached s st p info =
     (if \<not> PathInfoMatchesCache s st p info then (None, None, False)
      else case FindSnapshot s st p of (cachedHash, cachedFile, err) \<Rightarrow>
        if err \<noteq> None then (None, None, False) else (cachedHash, cachedFile, True))"

text \<open>
  The deferred function of \<open>snapshotRegularFile\<close>. \<open>r\<close> holds the named results at the
  time of the return, \<open>latest\<close> is what \<open>os.Lstat\<close> gives then.
\<close>

definition cacheIfUnchanged ::
  "'s Storage \<Rightarrow> 's \<Rightarrow> Path \<Rightarrow> FileInfo \<Rightarrow> int \<Rightarrow> error + FileInfo \<Rightarrow> snapshot \<Rightarrow> 's \<times> call list"
where
  "cacheIfUnchanged s st p info startTimeSec latest r =
     (case r of (h, f, err) \<Rightarrow>
        if err \<noteq> None \<or> h = None then (st, [])
        else (case latest of
                Inl _ \<Rightarrow> (st, [])
              | Inr latestInfo \<Rightarrow>
                  if \<not> (modTime latestInfo = modTime info) then (st, [])
                  else if \<not> (modTime latestInfo < startTimeSec + (- 1) * second) then (st, [])
                  else (snd (CachePathInfo s st p info), [CallCachePathInfo p info])))"

text \<open>
  \<open>snapshotRegularFile\<close>. Of the file system and the clock it sees the bytes of the file
  (\<open>contents\<close>), the time \<open>timeNow()\<close> gives at its start (\<open>now\<close>), and the result of
  the \<open>os.Lstat\<close> of its deferred function (\<open>latest\<close>).
\<close>

definition snapshotRegularFile ::
  "'s Storage \<Rightarrow> 's \<Rightarrow> Path \<Rightarrow> FileInfo \<Rightarrow> string \<Rightarrow> int \<Rightarrow> error + FileInfo \<Rightarrow>
   snapshot \<times> 's \<times> call list"
where
  "snapshotRegularFile s st p info contents now latest =
     (let startTimeSec = Truncate now second in
      case readCached s st p info of
        (cachedHash, cachedFile, True) \<Rightarrow> ((cachedHash, cachedFile, None), st, [])
      | (_, _, False) \<Rightarrow>
          (case StoreObject' s st (fileSize info) contents of ((h, err), st1) \<Rightarrow>
             (case (case err of
                      Some e \<Rightarrow> ((None, None, Some (ErrOther (storeFailedMsg e))), st1, [])
                    | None \<Rightarrow> snapshotFileMetadata s st1 p info h)
              of (r, st2, cs) \<Rightarrow>
                (case cacheIfUnchanged s st2 p info startTimeSec latest r of
                   (st3, cs') \<Rightarrow>
                     (r, st3, [CallStoreObject (fileSize info) contents] @ cs @ cs')))))"

definition readLinkFailedMsg :: "Path \<Rightarrow> error \<Rightarrow> string" where
  "readLinkFailedMsg p e =
     ''failure reading the link target for '' @ quote p @ '': '' @ Error e"

definition snapshotLink ::
  "'s Storage \<Rightarrow> 's \<Rightarrow> Path \<Rightarrow> FileInfo \<Rightarrow> error + string \<Rightarrow> snapshot \<times> 's \<times> call list"
where
  "snapshotLink s st p info readlink =
     (case readlink of
        Inl e \<Rightarrow> ((None, None, Some (ErrOther (readLinkFailedMsg p e))), st, [])
      | Inr target \<Rightarrow>
          (case StoreObject' s st (int (length target)) target of
             ((h, Some e), st1) \<Rightarrow>
               ((None, None, Some (ErrOther (storeFailedMsg e))), st1,
                [CallStoreObject (int (length target)) target])
           | ((h, None), st1) \<Rightarrow>
               (case snapshotFileMetadata s st1 p info h of
                  (r, st2, cs) \<Rightarrow> (r, st2, [CallStoreObject (int (length target)) target] @ cs))))"

text \<open>
  What a run of \<open>Current\<close> sees of the file system at a path, and below it: the result
  of \<open>os.Lstat\<close>, of \<open>os.Readlink\<close>, the error of \<open>os.Open\<close> if any, the result of
  \<open>Stat\<close> on the open file, the error of \<open>ReadDir\<close> if any and the entries it lists
  (each with what is seen at the entry), the bytes of the file, the time \<open>timeNow()\<close>
  gives at the start of \<open>snapshotRegularFile\<close>, and the result of the \<open>os.Lstat\<close> of its
  deferred function. The file system may change while the snapshot runs, so the results need
  not agree with each other.
\<close>

datatype node =
  Node (name: string) (lstat: "error + FileInfo") (readlink: "error + string")
    (openError: "error option") (stat: "error + FileInfo") (readDirError: "error option")
    (entries: "node list") (bytes: string) (now: int) (lstatAfter: "error + FileInfo")

text \<open>\<open>filepath.Join\<close> of a clean path and a name.\<close>

definition filepathJoin :: "Path \<Rightarrow> string \<Rightarrow> Path" where
  "filepathJoin p n = p @ ''/'' @ n"

definition readDirFailedMsg :: "Path \<Rightarrow> error \<Rightarrow> string" where
  "readDirFailedMsg p e =
     ''failure reading the filesystem contents of the directory '' @ quote p @ '': '' @ Error e"

definition childFailedMsg :: "Path \<Rightarrow> error \<Rightarrow> string" where
  "childFailedMsg childPath e =
     ''failure hashing the child dir '' @ quote childPath @ '': '' @ Error e"

definition statFailedMsg :: "Path \<Rightarrow> error \<Rightarrow> string" where
  "statFailedMsg p e = ''failure reading the file stat for '' @ quote p @ '': '' @ Error e"

definition openFailedMsg :: "Path \<Rightarrow> error \<Rightarrow> string" where
  "openFailedMsg p e = ''failure reading the file '' @ quote p @ '': '' @ Error e"

definition metadataFailedMsg :: "Path \<Rightarrow> error \<Rightarrow> string" where
  "metadataFailedMsg p e =
     ''failure reading the filesystem metadata for '' @ quote p @ '': '' @ Error e"

text \<open>
  The end of \<open>snapshotDirectory\<close>, after the loop over the entries: the tree is
  serialized and stored, and the hash \<open>StoreObject\<close> returns goes to
  \<open>snapshotFileMetadata\<close>. The error \<open>StoreObject\<close> returns is assigned and never read.
\<close>

definition storeDirectory ::
  "'s Storage \<Rightarrow> 's \<Rightarrow> Path \<Rightarrow> FileInfo \<Rightarrow> Tree \<Rightarrow> snapshot \<times> 's \<times> call list"
where
  "storeDirectory s st p info childHashes =
     (let contentsJson = TreeString childHashes in
      case StoreObject' s st (int (length contentsJson)) contentsJson of
        ((contentsHash, err), st1) \<Rightarrow>
          (case snapshotFileMetadata s st1 p info contentsHash of
             (r, st2, cs) \<Rightarrow>
               (r, st2, [CallStoreObject (int (length contentsJson)) contentsJson] @ cs)))"

text \<open>
  \<open>Current\<close>, \<open>snapshotDirectory\<close> and the loop of \<open>snapshotDirectory\<close> over the
  entries (\<open>snapshotEntries\<close>, whose accumulator is the tree \<open>childHashes\<close>).
\<close>

fun Current :: "'s Storage \<Rightarrow> 's \<Rightarrow> Path \<Rightarrow> node \<Rightarrow> snapshot \<times> 's \<times> call list"
  and snapshotDirectory ::
    "'s Storage \<Rightarrow> 's \<Rightarrow> Path \<Rightarrow> FileInfo \<Rightarrow> node \<Rightarrow> snapshot \<times> 's \<times> call list"
  and snapshotEntries ::
    "'s Storage \<Rightarrow> 's \<Rightarrow> Path \<Rightarrow> node list \<Rightarrow> Tree \<Rightarrow> (error + Tree) \<times> 's \<times> call list"
where
  "Current s st p (Node nm lst rl oe sta rde ents bts nw la) =
     (if Exclude s st p then ((None, None, None), st, [])
      else (case lst of
              Inl e \<Rightarrow>
                if IsNotExist (Some e) then ((None, None, None), st, [])
                else ((None, None, Some (ErrOther (statFailedMsg p e))), st, [])
            | Inr linfo \<Rightarrow>
                if isSymlink linfo then snapshotLink s st p linfo rl
                else (case oe of
                        Some e \<Rightarrow>
                          if IsNotExist (Some e) then ((None, None, None), st, [])
                          else ((None, None, Some (ErrOther (openFailedMsg p e))), st, [])
                      | None \<Rightarrow>
                          (case sta of
                             Inl e \<Rightarrow> ((None, None, Some (ErrOther (metadataFailedMsg p e))), st, [])
                           | Inr info \<Rightarrow>
                               if isDir info
                               then snapshotDirectory s st p info
                                      (Node nm lst rl oe sta rde ents bts nw la)
                               else snapshotRegularFile s st p info bts nw la))))"
| "snapshotDirectory s st p info (Node nm lst rl oe sta rde ents bts nw la) =
     (case rde of
        Some e \<Rightarrow> ((None, None, Some (ErrOther (readDirFailedMsg p e))), st, [])
      | None \<Rightarrow>
          (case snapshotEntries s st p ents [] of
             (Inl e, st1, cs) \<Rightarrow> ((None, None, Some e), st1, cs)
           | (Inr childHashes, st1, cs) \<Rightarrow>
               (case storeDirectory s st1 p info childHashes of
                  (r, st2, cs') \<Rightarrow> (r, st2, cs @ cs'))))"
| "snapshotEntries s st p [] childHashes = (Inr childHashes, st, [])"
| "snapshotEntries s st p (entry # rest) childHashes =
     (let childPath = filepathJoin p (name entry) in
      case Current s st childPath entry of
        ((childHash, _, Some e), st1, cs) \<Rightarrow> (Inl (ErrOther (childFailedMsg childPath e)), st1, cs)
      | ((childHash, _, None), st1, cs) \<Rightarrow>
          (case snapshotEntries s st1 p rest
                  (case childHash of
                     None \<Rightarrow> childHashes
                   | Some h \<Rightarrow> treeSet (name entry) h childHashes)
           of (r, st2, cs') \<Rightarrow> (r, st2, cs @ cs')))"

section \<open>Publishing: signing and pulling\<close>

text \<open>
  Modelled from the spec: the type \<open>snapshot.Identity\<close> and its methods \<open>Algorithm\<close>,
  \<open>Contents\<close> and \<open>String\<close> are not among the sources. An identity is a string
  \<open><namespace>::<content>\<close>; the namespace selects the helpers.
\<close>

record Identity =
  Algorithm :: string
  IdContents :: string

definition IdentityString :: "Identity \<Rightarrow> string" where
  "IdentityString ident = Algorithm ident @ ''::'' @ IdContents ident"

text \<open>
  A run of a helper process, as \<open>os/exec\<close> shows it: the error of \<open>StdoutPipe\<close> and of
  \<open>Start\<close> if any, what \<open>io.ReadAll\<close> reads from the standard output and its error if
  any, and the state in which the process ends, which \<open>Wait\<close> would report.
\<close>

datatype exit = Exited nat | Killed

record HelperRun =
  pipeError :: "string option"
  startError :: "string option"
  stdout :: string
  readError :: "string option"
  exitState :: exit

text \<open>
  Modelled from the spec: a configured mirror is a URL whose scheme selects the helpers,
  with additional helper flags; the settings list, for an identity name, its pull
  mirrors, and the additional pull mirrors. The package \<open>config\<close> is not among the sources.
  A \<open>*config.Mirror\<close> is a \<open>Mirror option\<close>, its \<open>*url.URL\<close> a \<open>URL option\<close>.
\<close>

record URL =
  Scheme :: string

record Mirror =
  MirrorURL :: "URL option"
  HelperFlags :: "string list"

record IdentitySetting =
  Name :: string
  PullMirrors :: "Mirror option list"

record Settings =
  Identities :: "IdentitySetting list"
  AdditionalPullMirrors :: "Mirror option list"

text \<open>
  What the publishing code uses and the sources do not define: the run of a command with
  its arguments, \<open>snapshot.ParseHash\<close>, \<open>Verify\<close>, how \<open>fmt\<close> prints a mirror, and
  the errors, if any, of the two methods of the identity index.
\<close>

record Helpers =
  run :: "string \<Rightarrow> string list \<Rightarrow> HelperRun"
  ParseHash :: "string \<Rightarrow> string + Hash option"
  Verify :: "Identity \<Rightarrow> Hash option \<Rightarrow> string + Hash option"
  showMirror :: "Mirror option \<Rightarrow> string"
  latestError :: "Identity \<Rightarrow> string option"
  updateError :: "Identity \<Rightarrow> Hash option \<Rightarrow> string option"

text \<open>
  Modelled from the spec: \<open>LatestSignatureForIdentity\<close> and
  \<open>UpdateSignatureForIdentity\<close> are not among the sources. They maintain a dedicated
  index keyed by the identity string; an update that fails leaves the index as it was.
\<close>

type_synonym SignatureIndex = "string \<Rightarrow> Hash option"

definition LatestSignatureForIdentity ::
  "Helpers \<Rightarrow> SignatureIndex \<Rightarrow> Identity \<Rightarrow> string + Hash option"
where
  "LatestSignatureForIdentity env idx ident =
     (case latestError env ident of
        Some e \<Rightarrow> Inl e
      | None \<Rightarrow> Inr (idx (IdentityString ident)))"

definition UpdateSignatureForIdentity ::
  "Helpers \<Rightarrow> SignatureIndex \<Rightarrow> Identity \<Rightarrow> Hash option \<Rightarrow> string option \<times> SignatureIndex"
where
  "UpdateSignatureForIdentity env idx ident h =
     (case updateError env ident h of
        Some e \<Rightarrow> (Some e, idx)
      | None \<Rightarrow> (None, idx(IdentityString ident := h)))"

subsection \<open>Sign\<close>

definition signHelperCommand :: "Identity \<Rightarrow> string" where
  "signHelperCommand ident = ''rvcs-sign-'' @ Algorithm ident"

definition signArgs :: "Identity \<Rightarrow> Hash \<Rightarrow> Hash option \<Rightarrow> string list" where
  "signArgs ident h prevSignature =
     [IdContents ident, HashString h] @
     (case prevSignature of None \<Rightarrow> [] | Some p \<Rightarrow> [HashString p])"

text \<open>
  What the code does with a started helper: \<open>StdoutPipe\<close>, \<open>Start\<close>, \<open>io.ReadAll\<close>,
  \<open>ParseHash\<close>. \<open>kind\<close> is \<open>sign\<close> or \<open>pull\<close>, for the messages. The code does not
  call \<open>Wait\<close>, and \<open>exitState\<close> is not read.
\<close>

definition readHelper :: "Helpers \<Rightarrow> string \<Rightarrow> string \<Rightarrow> string list \<Rightarrow> string + Hash option" where
  "readHelper env kind helperCommand args =
     (let r = run env helperCommand args in
      case pipeError r of
        Some e \<Rightarrow>
          Inl (''failure constructing the '' @ kind @ '' command for '' @ quote helperCommand @
               '': '' @ e)
      | None \<Rightarrow>
     (case startError r of
        Some e \<Rightarrow>
          Inl (''failure running the '' @ kind @ '' helper '' @ quote helperCommand @ '': '' @ e)
      | None \<Rightarrow>
     (case readError r of
        Some e \<Rightarrow>
          Inl (''failure reading the stdout of the '' @ kind @ '' helper '' @
               quote helperCommand @ '': '' @ e)
      | None \<Rightarrow>
     (case ParseHash env (stdout r) of
        Inl e \<Rightarrow>
          Inl (''failure parsing the stdout of the '' @ kind @ '' helper '' @
               quote helperCommand @ '': '' @ e)
      | Inr h \<Rightarrow> Inr h))))"

definition updateFailedMsg :: "Identity \<Rightarrow> Hash option \<Rightarrow> string \<Rightarrow> string" where
  "updateFailedMsg ident h e =
     ''failure updating the latest snapshot for '' @ quote (IdentityString ident) @ '' to '' @
     quoteHash h @ '': '' @ e"

definition Sign ::
  "Helpers \<Rightarrow> SignatureIndex \<Rightarrow> Identity option \<Rightarrow> Hash option \<Rightarrow> Hash option \<Rightarrow>
   (string + Hash option) \<times> SignatureIndex"
where
  "Sign env idx ident h prevSignature =
     (case ident of
        None \<Rightarrow> (Inl ''identity must not be nil'', idx)
      | Some i \<Rightarrow>
     (case h of
        None \<Rightarrow> (Inl ''cannot sign a nil hash'', idx)
      | Some hash \<Rightarrow>
     (case readHelper env ''sign'' (signHelperCommand i) (signArgs i hash prevSignature) of
        Inl e \<Rightarrow> (Inl e, idx)
      | Inr signature \<Rightarrow>
     (case UpdateSignatureForIdentity env idx i signature of
        (Some e, idx') \<Rightarrow> (Inl (updateFailedMsg i signature e), idx')
      | (None, idx') \<Rightarrow> (Inr signature, idx')))))"

subsection \<open>Pull\<close>

definition pullHelperCommand :: "URL \<Rightarrow> string" where
  "pullHelperCommand u = ''rvcs-pull-'' @ Scheme u"

definition pullArgs :: "Mirror \<Rightarrow> Identity \<Rightarrow> Hash option \<Rightarrow> string list" where
  "pullArgs m ident prev =
     HelperFlags m @ [IdentityString ident] @
     (case prev of None \<Rightarrow> [] | Some p \<Rightarrow> [HashString p])"

definition pullFrom :: "Helpers \<Rightarrow> Mirror option \<Rightarrow> Identity \<Rightarrow> Hash option \<Rightarrow> string + Hash option"
where
  "pullFrom env m ident prev =
     (case m of
        None \<Rightarrow> Inr prev
      | Some mirror \<Rightarrow>
          (case MirrorURL mirror of
             None \<Rightarrow> Inr prev
           | Some u \<Rightarrow> readHelper env ''pull'' (pullHelperCommand u) (pullArgs mirror ident prev)))"

definition pullFailedMsg :: "Helpers \<Rightarrow> Identity \<Rightarrow> Mirror option \<Rightarrow> string \<Rightarrow> string" where
  "pullFailedMsg env ident m e =
     ''failure pulling the latest snapshot for '' @ quote (IdentityString ident) @ '' from '' @
     showMirror env m @ '': '' @ e"

definition verifyFailedMsg :: "Helpers \<Rightarrow> Identity \<Rightarrow> Mirror option \<Rightarrow> string \<Rightarrow> string" where
  "verifyFailedMsg env ident m e =
     ''failure verifying the signature for '' @ quote (IdentityString ident) @ '' from '' @
     showMirror env m @ '': '' @ e"

definition pullFromAndVerify ::
  "Helpers \<Rightarrow> Mirror option \<Rightarrow> Identity \<Rightarrow> Hash option \<Rightarrow> Hash option \<Rightarrow>
   string + Hash option \<times> Hash option"
where
  "pullFromAndVerify env m ident prevSignature prevSigned =
     (case pullFrom env m ident prevSignature of
        Inl e \<Rightarrow> Inl (pullFailedMsg env ident m e)
      | Inr signature \<Rightarrow>
          if Equal signature prevSignature then Inr (prevSignature, prevSigned)
          else (case Verify env ident signature of
                  Inl e \<Rightarrow> Inl (verifyFailedMsg env ident m e)
                | Inr signed \<Rightarrow> Inr (signature, signed)))"

text \<open>The loop over a list of mirrors, left at the first failure.\<close>

fun pullMirrors ::
  "Helpers \<Rightarrow> Identity \<Rightarrow> Mirror option list \<Rightarrow> Hash option \<times> Hash option \<Rightarrow>
   string + Hash option \<times> Hash option"
where
  "pullMirrors env ident [] cur = Inr cur"
| "pullMirrors env ident (mirror # rest) (signature, signed) =
     (case pullFromAndVerify env mirror ident signature signed of
        Inl e \<Rightarrow> Inl (pullFailedMsg env ident mirror e)
      | Inr cur \<Rightarrow> pullMirrors env ident rest cur)"

text \<open>The loop over the identities of the settings.\<close>

fun pullIdentities ::
  "Helpers \<Rightarrow> Identity \<Rightarrow> IdentitySetting list \<Rightarrow> Hash option \<times> Hash option \<Rightarrow>
   string + Hash option \<times> Hash option"
where
  "pullIdentities env ident [] cur = Inr cur"
| "pullIdentities env ident (idSetting # rest) cur =
     (if Name idSetting = IdentityString ident
      then (case pullMirrors env ident (PullMirrors idSetting) cur of
              Inl e \<Rightarrow> Inl e
            | Inr cur' \<Rightarrow> pullIdentities env ident rest cur')
      else pullIdentities env ident rest cur)"

definition Pull ::
  "Helpers \<Rightarrow> Settings \<Rightarrow> SignatureIndex \<Rightarrow> Identity \<Rightarrow>
   (string + Hash option \<times> Hash option) \<times> SignatureIndex"
where
  "Pull env settings idx ident =
     (case LatestSignatureForIdentity env idx ident of
        Inl e \<Rightarrow>
          (Inl (''failure looking up the previous signature for '' @ quote (IdentityString ident) @
                '': '' @ e), idx)
      | Inr signature0 \<Rightarrow>
     (case Verify env ident signature0 of
        Inl e \<Rightarrow>
          (Inl (''failure verifying the previous signature for '' @ quote (IdentityString ident) @
                '': '' @ e), idx)
      | Inr signed0 \<Rightarrow>
     (case pullIdentities env ident (Identities settings) (signature0, signed0) of
        Inl e \<Rightarrow> (Inl e, idx)
      | Inr cur1 \<Rightarrow>
     (case pullMirrors env ident (AdditionalPullMirrors settings) cur1 of
        Inl e \<Rightarrow> (Inl e, idx)
      | Inr (signature, signed) \<Rightarrow>
     (case UpdateSignatureForIdentity env idx ident signature of
        (Some e, idx') \<Rightarrow> (Inl (updateFailedMsg ident signature e), idx')
      | (None, idx') \<Rightarrow> (Inr (signature, signed), idx'))))))"

text \<open>
  The mirrors \<open>Pull\<close> goes through, in its order: the pull mirrors of every setting
  with the name of the identity, then the additional pull mirrors.
\<close>

definition mirrorsOf :: "Settings \<Rightarrow> Identity \<Rightarrow> Mirror option list" where
  "mirrorsOf settings ident =
     concat (map PullMirrors
               (filter (\<lambda>idSetting. Name idSetting = IdentityString ident) (Identities settings))) @
     AdditionalPullMirrors settings"

text \<open>
  The signature after the mirrors \<open>ms\<close>, starting from \<open>cur\<close>: every mirror is asked
  with the signature reached so far and answers with the next one.
\<close>

fun lastSignature :: "Helpers \<Rightarrow> Identity \<Rightarrow> Mirror option list \<Rightarrow> Hash option \<Rightarrow> Hash option" where
  "lastSignature env ident [] cur = cur"
| "lastSignature env ident (m # ms) cur =
     (case pullFrom env m ident cur of
        Inl _ \<Rightarrow> lastSignature env ident ms cur
      | Inr new \<Rightarrow> lastSignature env ident ms new)"

text \<open>
  No mirror of \<open>ms\<close> fails: neither its pull helper nor the verification of a signature
  that is new.
\<close>

fun mirrorsSucceed :: "Helpers \<Rightarrow> Identity \<Rightarrow> Mirror option list \<Rightarrow> Hash option \<Rightarrow> bool" where
  "mirrorsSucceed env ident [] cur = True"
| "mirrorsSucceed env ident (m # ms) cur =
     (case pullFrom env m ident cur of
        Inl _ \<Rightarrow> False
      | Inr new \<Rightarrow>
          (new = cur \<or> (case Verify env ident new of Inl _ \<Rightarrow> False | Inr _ \<Rightarrow> True)) \<and>
          mirrorsSucceed env ident ms new)"

section \<open>Examples\<close>

subsection \<open>A store in memory\<close>

text \<open>
  A \<open>Storage\<close> for the examples: the objects stored, the latest snapshot of each path, and
  the cached file information of each path. As in \<open>exampleFiles\<close> the hash of an object
  has the bytes themselves. The argument says for which bytes \<open>StoreObject\<close> fails.
\<close>

record memory =
  objects :: "string list"
  latestSnapshots :: "(Path \<times> File) list"
  cachedInfos :: "(Path \<times> FileInfo) list"

definition memoryStorage :: "(string \<Rightarrow> bool) \<Rightarrow> memory Storage" where
  "memoryStorage fails =
     \<lparr>StoreObject' =
        (\<lambda>st n b. if fails b then ((None, Some (ErrOther ''disk full'')), st)
                  else ((Some (sha b), None), st\<lparr>objects := b # objects st\<rparr>)),
      Exclude = (\<lambda>st p. p = ''/store''),
      FindSnapshot =
        (\<lambda>st p. case map_of (latestSnapshots st) p of
                   None \<Rightarrow> (None, None, Some (ErrNotExist ''no snapshot''))
                 | Some f \<Rightarrow> (Some (sha (exampleFileString f)), Some f, None)),
      StoreSnapshot =
        (\<lambda>st p f. ((Some (sha (exampleFileString f)), None),
                    st\<lparr>objects := exampleFileString f # objects st,
                       latestSnapshots := (p, f) # latestSnapshots st\<rparr>)),
      CachePathInfo = (\<lambda>st p info. (None, st\<lparr>cachedInfos := (p, info) # cachedInfos st\<rparr>)),
      PathInfoMatchesCache = (\<lambda>st p info. map_of (cachedInfos st) p = Some info)\<rparr>"

definition emptyMemory :: memory where
  "emptyMemory = \<lparr>objects = [], latestSnapshots = [], cachedInfos = []\<rparr>"

definition fileInfo :: "int \<Rightarrow> FileInfo" where
  "fileInfo t =
     \<lparr>modeString = ''-rw-r--r--'', isSymlink = False, isDir = False, fileSize = 1, modTime = t\<rparr>"

definition dirInfo :: FileInfo where
  "dirInfo =
     \<lparr>modeString = ''drwxr-xr-x'', isSymlink = False, isDir = True, fileSize = 64, modTime = 0\<rparr>"

text \<open>A regular file with the bytes \<open>a\<close>, and a directory that holds it.\<close>

definition fileNode :: node where
  "fileNode =
     Node ''f'' (Inr (fileInfo 0)) (Inl (ErrOther ''not a link'')) None (Inr (fileInfo 0)) None []
       ''a'' (10 * second) (Inr (fileInfo 0))"

definition dirNode :: node where
  "dirNode =
     Node ''d'' (Inr dirInfo) (Inl (ErrOther ''not a link'')) None (Inr dirInfo) None [fileNode]
       [] 0 (Inr dirInfo)"

subsection \<open>Helpers\<close>

text \<open>
  Helpers for the examples. The sign helper of the namespace \<open>ex\<close> writes a signature
  and ends with status 1; the pull helper of the scheme \<open>file\<close> answers \<open>sha256:s1\<close>,
  that of the scheme \<open>bad\<close> a signature that \<open>Verify\<close> rejects, and that of the scheme
  \<open>kill\<close> writes \<open>sha256:s2\<close> and is killed.
\<close>

definition exampleParseHash :: "string \<Rightarrow> string + Hash option" where
  "exampleParseHash str =
     (if str = [] then Inr None
      else if take 7 str = ''sha256:'' then Inr (Some (sha (drop 7 str)))
      else Inl ''unsupported hash function'')"

definition exampleRun :: "string \<Rightarrow> string list \<Rightarrow> HelperRun" where
  "exampleRun cmd args =
     (if cmd = ''rvcs-sign-ex''
      then \<lparr>pipeError = None, startError = None, stdout = ''sha256:sig'', readError = None,
            exitState = Exited 1\<rparr>
      else if cmd = ''rvcs-pull-file''
      then \<lparr>pipeError = None, startError = None, stdout = ''sha256:s1'', readError = None,
            exitState = Exited 0\<rparr>
      else if cmd = ''rvcs-pull-bad''
      then \<lparr>pipeError = None, startError = None, stdout = ''sha256:bad'', readError = None,
            exitState = Exited 0\<rparr>
      else if cmd = ''rvcs-pull-kill''
      then \<lparr>pipeError = None, startError = None, stdout = ''sha256:s2'', readError = None,
            exitState = Killed\<rparr>
      else \<lparr>pipeError = None, startError = Some ''executable file not found in $PATH'',
            stdout = [], readError = None, exitState = Exited 127\<rparr>)"

definition exampleHelpers :: Helpers where
  "exampleHelpers =
     \<lparr>run = exampleRun,
      ParseHash = exampleParseHash,
      Verify = (\<lambda>ident signature.
                  if signature = Some (sha ''bad'') then Inl ''the signature is not valid''
                  else Inr (map_option (\<lambda>h. sha (''signed by '' @ hexContents h)) signature)),
      showMirror = (\<lambda>m. case m of
                           None \<Rightarrow> ''<nil>''
                         | Some x \<Rightarrow> (case MirrorURL x of None \<Rightarrow> ''<nil>'' | Some u \<Rightarrow> Scheme u)),
      latestError = (\<lambda>ident. None),
      updateError = (\<lambda>ident h. None)\<rparr>"

definition exampleIdentity :: Identity where
  "exampleIdentity = \<lparr>Algorithm = ''ex'', IdContents = ''u''\<rparr>"

definition mirror :: "string \<Rightarrow> Mirror option" where
  "mirror scheme = Some \<lparr>MirrorURL = Some \<lparr>Scheme = scheme\<rparr>, HelperFlags = []\<rparr>"

definition exampleSettings :: "Mirror option list \<Rightarrow> Settings" where
  "exampleSettings additional =
     \<lparr>Identities = [\<lparr>Name = ''ex::u'', PullMirrors = [mirror ''file'']\<rparr>],
      AdditionalPullMirrors = additional\<rparr>"

definition exampleIndex :: SignatureIndex where
  "exampleIndex = (\<lambda>_. None)(''ex::u'' := Some (sha ''s0''))"

section \<open>Properties of the merge\<close>

lemma Equal_iff: "Equal a b \<longleftrightarrow> a = b"
  by (cases a; cases b) (auto simp: Equal_def Hash.expand)

lemma mergeWithBase_childMerge:
  "mergeWithBase n s subPath base src dest f =
     mergeBody (childMerge n s f) s subPath base src dest f"
  by (cases n) (simp_all add: childMerge_def)

text \<open>
  C2. The three trivial cases come first, in this order: the source when source and
  destination are equal, the destination when the source is the base, the source when the
  destination is the base. Nothing of the store is read for them.
\<close>

theorem mergeWithBase_trivial:
  "src = dest \<or> src = base \<or> dest = base \<Longrightarrow>
   mergeWithBase n s subPath base src dest forceKeepMode =
     Some (if src = dest then src else if src = base then dest else src, None)"
  by (auto simp: mergeWithBase_childMerge mergeBody_def Equal_iff)


lemma map_of_treeSet: "map_of (treeSet p h t) q = (if q = p then Some h else map_of t q)"
  by (induction t) (auto simp: treeSet_def)

lemma mergeChildren_None:
  "mergeChildren rec ps acc = None \<longleftrightarrow> (\<exists>p \<in> set ps. rec p = None)"
proof (induction ps arbitrary: acc)
  case Nil
  then show ?case by simp
next
  case (Cons p ps)
  obtain t e where acc: "acc = (t, e)" by (cases acc)
  show ?case
    by (cases "rec p") (auto simp: acc Cons.IH)
qed


lemma mergeChildren_tree:
  "mergeChildren rec ps (t0, e0) = Some (t, e) \<Longrightarrow> distinct ps \<Longrightarrow>
   map_of t q = (if q \<in> set ps \<and> mergedHashOf rec q \<noteq> None then mergedHashOf rec q else map_of t0 q)"
proof (induction ps arbitrary: t0 e0)
  case Nil
  then show ?case by simp
next
  case (Cons p ps)
  from Cons.prems(1) obtain mc er where r: "rec p = Some (mc, er)"
    by (cases "rec p") auto
  let ?t1 = "case mc of None \<Rightarrow> t0 | Some h \<Rightarrow> treeSet p h t0"
  let ?e1 = "case er of None \<Rightarrow> e0 | Some x \<Rightarrow> e0 @ [x]"
  from Cons.prems(1) r have step: "mergeChildren rec ps (?t1, ?e1) = Some (t, e)" by simp
  from Cons.prems(2) have d: "distinct ps" and np: "p \<notin> set ps" by simp_all
  have IH: "map_of t q =
      (if q \<in> set ps \<and> mergedHashOf rec q \<noteq> None then mergedHashOf rec q else map_of ?t1 q)"
    by (rule Cons.IH [OF step d])
  show ?case
    using np r by (cases mc) (auto simp: IH mergedHashOf_def map_of_treeSet)
qed

lemma mergeChildren_errors:
  "mergeChildren rec ps (t0, e0) = Some (t, e) \<Longrightarrow>
   e = e0 @ List.map_filter (nestedErrorOf rec) ps"
proof (induction ps arbitrary: t0 e0)
  case Nil
  then show ?case by (simp add: List.map_filter_simps)
next
  case (Cons p ps)
  from Cons.prems(1) obtain mc er where r: "rec p = Some (mc, er)"
    by (cases "rec p") auto
  let ?t1 = "case mc of None \<Rightarrow> t0 | Some h \<Rightarrow> treeSet p h t0"
  let ?e1 = "case er of None \<Rightarrow> e0 | Some x \<Rightarrow> e0 @ [x]"
  from Cons.prems(1) r have step: "mergeChildren rec ps (?t1, ?e1) = Some (t, e)" by simp
  have "e = ?e1 @ List.map_filter (nestedErrorOf rec) ps" by (rule Cons.IH [OF step])
  moreover have "nestedErrorOf rec p = er" by (simp add: nestedErrorOf_def r)
  ultimately show ?case
    by (cases er) (simp_all add: List.map_filter_simps)
qed

lemma TreeString_cong:
  assumes "map_of t = map_of t'"
  shows "TreeString t = TreeString t'"
proof -
  have "fst ` set t = fst ` set t'"
    using assms by (metis dom_map_of_conv_image_fst)
  then have "sort (treeKeys t) = sort (treeKeys t')"
    by (simp add: treeKeys_def flip: sorted_list_of_set_sort_remdups)
  moreover have "treeLine t = treeLine t'"
    by (rule ext) (simp add: treeLine_def assms)
  ultimately show ?thesis by (simp add: TreeString_def)
qed





lemma sameOutcome_refl: "sameOutcome r r"
  by (simp add: sameOutcome_def split: option.splits)

lemma sameOutcome_None: "sameOutcome r1 r2 \<Longrightarrow> (r1 = None) = (r2 = None)"
  by (auto simp: sameOutcome_def split: option.splits)

lemma sameOutcome_mergedHashOf:
  "sameOutcome (rec1 q) (rec2 q) \<Longrightarrow> mergedHashOf rec1 q = mergedHashOf rec2 q"
  by (cases "rec1 q"; cases "rec2 q") (auto simp: mergedHashOf_def sameOutcome_def)

lemma sameOutcome_nestedErrorOf:
  "sameOutcome (rec1 q) (rec2 q) \<Longrightarrow>
   (nestedErrorOf rec1 q = None) = (nestedErrorOf rec2 q = None)"
  by (cases "rec1 q"; cases "rec2 q") (auto simp: nestedErrorOf_def sameOutcome_def)

lemma map_filter_Nil: "List.map_filter g xs = [] \<longleftrightarrow> (\<forall>x \<in> set xs. g x = None)"
  by (induction xs) (auto simp: List.map_filter_simps split: option.splits)

lemma mergeChildren_sameOutcome:
  assumes rec: "\<And>p. sameOutcome (rec1 p) (rec2 p)"
    and d1: "distinct ps1" and d2: "distinct ps2" and eq: "set ps1 = set ps2"
  shows "(case mergeChildren rec1 ps1 ([], []) of
            None \<Rightarrow> mergeChildren rec2 ps2 ([], []) = None
          | Some (t1, e1) \<Rightarrow>
              (\<exists>t2 e2. mergeChildren rec2 ps2 ([], []) = Some (t2, e2) \<and>
                 map_of t1 = map_of t2 \<and> (e1 = []) = (e2 = [])))"
proof (cases "mergeChildren rec1 ps1 ([], [])")
  case None
  then obtain p where "p \<in> set ps1" and "rec1 p = None"
    by (auto simp: mergeChildren_None)
  then have "p \<in> set ps2" and "rec2 p = None"
    using eq sameOutcome_None [OF rec, of p] by auto
  then have "mergeChildren rec2 ps2 ([], []) = None"
    by (auto simp: mergeChildren_None)
  with None show ?thesis by simp
next
  case (Some a)
  obtain t1 e1 where a: "a = (t1, e1)" by (cases a)
  have r1: "mergeChildren rec1 ps1 ([], []) = Some (t1, e1)" using Some a by simp
  have "\<forall>p \<in> set ps1. rec1 p \<noteq> None"
    using r1 mergeChildren_None [of rec1 ps1 "([], [])"] by auto
  then have "\<forall>p \<in> set ps2. rec2 p \<noteq> None"
    using eq sameOutcome_None [OF rec] by auto
  then have "mergeChildren rec2 ps2 ([], []) \<noteq> None"
    by (simp add: mergeChildren_None)
  then obtain t2 e2 where r2: "mergeChildren rec2 ps2 ([], []) = Some (t2, e2)"
    by (cases "mergeChildren rec2 ps2 ([], [])") auto
  have "map_of t1 = map_of t2"
  proof
    fix q
    show "map_of t1 q = map_of t2 q"
    proof -
      have "mergedHashOf rec1 q = mergedHashOf rec2 q"
        by (rule sameOutcome_mergedHashOf) (rule rec)
      then show ?thesis
        using mergeChildren_tree [OF r1 d1, of q] mergeChildren_tree [OF r2 d2, of q] eq
        by simp
    qed
  qed
  moreover have "(e1 = []) = (e2 = [])"
  proof -
    have "\<And>q. (nestedErrorOf rec1 q = None) = (nestedErrorOf rec2 q = None)"
      by (rule sameOutcome_nestedErrorOf) (rule rec)
    then show ?thesis
      using mergeChildren_errors [OF r1] mergeChildren_errors [OF r2] eq
      by (simp add: map_filter_Nil)
  qed
  ultimately show ?thesis using r1 r2 by simp
qed

lemma mergeDirectories_sameOutcome:
  assumes rec: "\<And>p b a d. sameOutcome (rec1 p b a d) (rec2 p b a d)"
    and o1: "mapOrder (rangeOrder s)" and o2: "mapOrder order'"
  shows "sameOutcome
           (mergeDirectories rec1 s subPath src dest srcFile destFile baseTree srcTree destTree f)
           (mergeDirectories rec2 (s\<lparr>rangeOrder := order'\<rparr>) subPath src dest srcFile destFile
              baseTree srcTree destTree f)"
proof -
  let ?ks = "remdups (map fst srcTree @ map fst destTree)"
  let ?c1 = "\<lambda>p. rec1 (Join subPath p) (map_of baseTree p) (map_of srcTree p) (map_of destTree p)"
  let ?c2 = "\<lambda>p. rec2 (Join subPath p) (map_of baseTree p) (map_of srcTree p) (map_of destTree p)"
  have d1: "distinct (rangeOrder s ?ks)" and d2: "distinct (order' ?ks)"
    and eq: "set (rangeOrder s ?ks) = set (order' ?ks)"
    using o1 o2 by (simp_all add: mapOrder_def)
  have c: "\<And>p. sameOutcome (?c1 p) (?c2 p)" by (rule rec)
  note loop = mergeChildren_sameOutcome [of ?c1 ?c2, OF c d1 d2 eq]
  show ?thesis
  proof (cases "mergeChildren ?c1 (rangeOrder s ?ks) ([], [])")
    case None
    with loop have "mergeChildren ?c2 (order' ?ks) ([], []) = None" by simp
    with None show ?thesis
      by (simp add: mergeDirectories_def sameOutcome_def)
  next
    case (Some a)
    obtain t1 e1 where a: "a = (t1, e1)" by (cases a)
    from loop Some a obtain t2 e2 where
      r2: "mergeChildren ?c2 (order' ?ks) ([], []) = Some (t2, e2)"
      and t: "map_of t1 = map_of t2" and e: "(e1 = []) = (e2 = [])"
      by auto
    have ts: "TreeString t1 = TreeString t2" by (rule TreeString_cong [OF t])
    show ?thesis
      using Some a r2 e
      by (simp add: mergeDirectories_def sameOutcome_def ts Let_def split: sum.splits)
  qed
qed

lemma mergeSnapshots_sameOutcome:
  assumes rec: "\<And>p b a d. sameOutcome (rec1 p b a d) (rec2 p b a d)"
    and o1: "mapOrder (rangeOrder s)" and o2: "mapOrder order'"
  shows "sameOutcome
           (mergeSnapshots rec1 s subPath base src dest f)
           (mergeSnapshots rec2 (s\<lparr>rangeOrder := order'\<rparr>) subPath base src dest f)"
  unfolding mergeSnapshots_def
  by (auto simp: sameOutcome_refl mergeDirectories_sameOutcome [OF rec o1 o2]
      split: sum.splits option.splits prod.splits)

lemma IsAncestor_rangeOrder: "IsAncestor (s\<lparr>rangeOrder := order'\<rparr>) base h = IsAncestor s base h"
  by (simp add: IsAncestor_def)

lemma mergeBody_sameOutcome:
  assumes rec: "\<And>p b a d. sameOutcome (rec1 p b a d) (rec2 p b a d)"
    and o1: "mapOrder (rangeOrder s)" and o2: "mapOrder order'"
  shows "sameOutcome
           (mergeBody rec1 s subPath base src dest f)
           (mergeBody rec2 (s\<lparr>rangeOrder := order'\<rparr>) subPath base src dest f)"
  unfolding mergeBody_def
  by (auto simp: sameOutcome_refl IsAncestor_rangeOrder mergeSnapshots_sameOutcome [OF rec o1 o2]
      split: sum.splits option.splits)

text \<open>
  C9, as amended. The loop ranges over the union of the child names in the order of a Go
  map, which the two runs need not share. Whatever the two orders are, both runs return
  or neither does, they return the same hash, and both fail or both succeed.
\<close>

theorem mergeWithBase_order_independent:
  assumes "mapOrder (rangeOrder s)" and "mapOrder order'"
  shows "sameOutcome
           (mergeWithBase n s subPath base src dest f)
           (mergeWithBase n (s\<lparr>rangeOrder := order'\<rparr>) subPath base src dest f)"
proof (induction n arbitrary: subPath base src dest)
  case 0
  show ?case
    by (simp add: mergeBody_sameOutcome [OF _ assms] sameOutcome_refl)
next
  case (Suc n)
  show ?case
    by (simp add: mergeBody_sameOutcome [OF Suc.IH assms])
qed

subsection \<open>The merge on the small store\<close>

theorem mergeWithBase_trivial_witness:
  "mergeWithBase 1 (exampleFiles id) ''/t'' (Some (sha ''base'')) (Some (sha ''src''))
     (Some (sha ''src'')) False = Some (Some (sha ''src''), None) \<and>
   mergeWithBase 1 (exampleFiles id) ''/t'' (Some (sha ''base'')) (Some (sha ''base''))
     (Some (sha ''dest'')) False = Some (Some (sha ''dest''), None) \<and>
   mergeWithBase 1 (exampleFiles id) ''/t'' (Some (sha ''base'')) (Some (sha ''src''))
     (Some (sha ''base'')) False = Some (Some (sha ''src''), None)"
  using
    mergeWithBase_trivial [where src = "Some (sha ''src'')" and dest = "Some (sha ''src'')"
      and base = "Some (sha ''base'')" and n = 1 and s = "exampleFiles id" and subPath = "''/t''"
      and forceKeepMode = False]
    mergeWithBase_trivial [where src = "Some (sha ''base'')" and dest = "Some (sha ''dest'')"
      and base = "Some (sha ''base'')" and n = 1 and s = "exampleFiles id" and subPath = "''/t''"
      and forceKeepMode = False]
    mergeWithBase_trivial [where src = "Some (sha ''src'')" and dest = "Some (sha ''base'')"
      and base = "Some (sha ''base'')" and n = 1 and s = "exampleFiles id" and subPath = "''/t''"
      and forceKeepMode = False]
  by (simp add: sha_def)


lemmas example_defs =
  mergeBody_def mergeSnapshots_def mergeDirectories_def childMerge_def IsAncestor_def
  exampleFiles_def exampleLog_def exampleSnapshot_def exampleTree_def sha_def Equal_def
  Join_def treeSet_def



lemma example_failure_id:
  "mergeWithBase 1 (exampleFiles id) ''/t'' (Some (sha ''base'')) (Some (sha ''src''))
     (Some (sha ''dest'')) False =
   Some (None, Some (joinLines [rolledBackSourceMsg ''/t/b'', rolledBackSourceMsg ''/t/a'']))"
  by (simp add: example_defs)

lemma example_failure_rev:
  "mergeWithBase 1 (exampleFiles rev) ''/t'' (Some (sha ''base'')) (Some (sha ''src''))
     (Some (sha ''dest'')) False =
   Some (None, Some (joinLines [rolledBackSourceMsg ''/t/a'', rolledBackSourceMsg ''/t/b'']))"
  by (simp add: example_defs)

text \<open>
  C9, as stated, fails: two runs that range over the names \<open>a\<close> and \<open>b\<close> in the two
  orders list the two nested errors in the two orders, and the messages differ. The first
  run does not range over the names in sorted order.
\<close>

theorem mergeWithBase_order_counterexample:
  "rangeOrder (exampleFiles id) [''b'', ''a''] = [''b'', ''a''] \<and>
   mergeWithBase 1 (exampleFiles id) ''/t'' (Some (sha ''base'')) (Some (sha ''src''))
     (Some (sha ''dest'')) False \<noteq>
   mergeWithBase 1 (exampleFiles rev) ''/t'' (Some (sha ''base'')) (Some (sha ''src''))
     (Some (sha ''dest'')) False"
  unfolding example_failure_id example_failure_rev
  by (simp add: exampleFiles_def rolledBackSourceMsg_def quote_def quoteChar_def)

lemma mapOrder_id: "mapOrder id"
  by (simp add: mapOrder_def)

lemma mapOrder_rev: "mapOrder rev"
  by (simp add: mapOrder_def)

theorem mergeWithBase_order_independent_witness:
  "mapOrder (rangeOrder (exampleFiles id)) \<and> mapOrder rev \<and>
   sameOutcome
     (mergeWithBase 1 (exampleFiles id) ''/t'' (Some (sha ''base'')) (Some (sha ''src''))
        (Some (sha ''dest'')) False)
     (mergeWithBase 1 ((exampleFiles id)\<lparr>rangeOrder := rev\<rparr>) ''/t'' (Some (sha ''base''))
        (Some (sha ''src'')) (Some (sha ''dest'')) False)"
proof -
  have o1: "mapOrder (rangeOrder (exampleFiles id))"
    by (simp add: exampleFiles_def mapOrder_id)
  from o1 mapOrder_rev mergeWithBase_order_independent [OF o1 mapOrder_rev]
  show ?thesis by blast
qed

section \<open>Properties of the snapshots\<close>


lemma snapshotFileMetadata_calls:
  "snapshotFileMetadata s st p info contentsHash = (r, st', cs) \<Longrightarrow>
   CallCachePathInfo q i \<notin> set cs"
  by (auto simp: snapshotFileMetadata_def Let_def split: prod.splits option.splits if_splits)

lemma cacheIfUnchanged_calls:
  "cacheIfUnchanged s st p info startTimeSec latest (h, f, err) = (st', cs) \<Longrightarrow>
   CallCachePathInfo p info \<in> set cs \<longleftrightarrow>
     err = None \<and> h \<noteq> None \<and>
     (\<exists>latestInfo. latest = Inr latestInfo \<and> modTime latestInfo = modTime info \<and>
        modTime latestInfo < startTimeSec - second)"
  by (auto simp: cacheIfUnchanged_def split: sum.splits if_splits)

text \<open>
  C8, as amended. When \<open>snapshotRegularFile\<close> is not answered from the cache,
  \<open>CachePathInfo\<close> is called if and only if the snapshot succeeded (no error and a hash),
  the \<open>os.Lstat\<close> made after the reading succeeded with the modification time seen
  before the reading, and that time is strictly earlier than one second before the start
  time truncated to the whole second.
\<close>

theorem snapshotRegularFile_cache_guard:
  assumes miss: "\<not> snd (snd (readCached s st p info))"
    and res: "snapshotRegularFile s st p info contents start latest = ((h, f, err), st', cs)"
  shows "CallCachePathInfo p info \<in> set cs \<longleftrightarrow>
           err = None \<and> h \<noteq> None \<and>
           (\<exists>latestInfo. latest = Inr latestInfo \<and> modTime latestInfo = modTime info \<and>
              modTime latestInfo < Truncate start second - second)"
proof -
  obtain ch cf where rc: "readCached s st p info = (ch, cf, False)"
    using miss by (cases "readCached s st p info") auto
  obtain h1 e1 st1 where so: "StoreObject' s st (fileSize info) contents = ((h1, e1), st1)"
    by (cases "StoreObject' s st (fileSize info) contents") auto
  define meta where "meta =
    (case e1 of
       Some e \<Rightarrow> ((None, None, Some (ErrOther (storeFailedMsg e))), st1, [])
     | None \<Rightarrow> snapshotFileMetadata s st1 p info h1)"
  obtain r st2 cs1 where m: "meta = (r, st2, cs1)" by (cases meta)
  obtain st3 cs2 where c: "cacheIfUnchanged s st2 p info (Truncate start second) latest r = (st3, cs2)"
    by (cases "cacheIfUnchanged s st2 p info (Truncate start second) latest r")
  have "snapshotRegularFile s st p info contents start latest =
      (r, st3, [CallStoreObject (fileSize info) contents] @ cs1 @ cs2)"
    unfolding snapshotRegularFile_def Let_def rc so
    using m c by (simp add: meta_def)
  with res have r: "r = (h, f, err)" and cs: "cs = [CallStoreObject (fileSize info) contents] @ cs1 @ cs2"
    by simp_all
  have "CallCachePathInfo p info \<notin> set cs1"
    using m snapshotFileMetadata_calls [of s st1 p info h1 r st2 cs1 p info]
    by (cases e1) (auto simp: meta_def)
  then have "CallCachePathInfo p info \<in> set cs \<longleftrightarrow> CallCachePathInfo p info \<in> set cs2"
    by (simp add: cs)
  also have "\<dots> \<longleftrightarrow> err = None \<and> h \<noteq> None \<and>
      (\<exists>latestInfo. latest = Inr latestInfo \<and> modTime latestInfo = modTime info \<and>
         modTime latestInfo < Truncate start second - second)"
    by (rule cacheIfUnchanged_calls [OF c [unfolded r]])
  finally show ?thesis .
qed

text \<open>
  C10. Once the entries of a directory are read and their snapshots taken,
  \<open>snapshotDirectory\<close> is \<open>snapshotFileMetadata\<close> on the hash that \<open>StoreObject\<close>
  returned for the serialized tree, whatever the error \<open>StoreObject\<close> returned with it:
  the error is in no result, and with a nil hash the File is built with nil contents.
\<close>

theorem snapshotDirectory_discards_store_error:
  assumes "readDirError contents = None"
    and "snapshotEntries s st p (entries contents) [] = (Inr childHashes, st1, cs)"
    and "StoreObject' s st1 (int (length (TreeString childHashes))) (TreeString childHashes) =
           ((contentsHash, err), st2)"
  shows "snapshotDirectory s st p info contents =
           (case snapshotFileMetadata s st2 p info contentsHash of
              (r, st3, cs') \<Rightarrow>
                (r, st3,
                 cs @ [CallStoreObject (int (length (TreeString childHashes)))
                         (TreeString childHashes)] @ cs'))"
  using assms
  by (cases contents) (simp add: storeDirectory_def Let_def split: prod.splits)

subsection \<open>Snapshots on the store in memory\<close>


text \<open>
  C8, as stated, fails: a file last modified 9.2 s after the zero time is read in a snapshot
  that starts at 10.5 s. The modification time is the same after the reading and is earlier
  than one second before the start, the snapshot succeeds, and \<open>CachePathInfo\<close> is not
  called: the start time is truncated to 10 s first.
\<close>

theorem snapshotRegularFile_cache_counterexample:
  "modTime (fileInfo 9200000000) = modTime (fileInfo 9200000000) \<and>
   modTime (fileInfo 9200000000) < 10500000000 - second \<and>
   fst (snapshotRegularFile (memoryStorage (\<lambda>_. False)) emptyMemory ''/t/f''
          (fileInfo 9200000000) ''a'' 10500000000 (Inr (fileInfo 9200000000))) =
     (Some (sha (exampleFileString
        \<lparr>Mode = ''-rw-r--r--'', Contents = Some (sha ''a''), Parents = []\<rparr>)),
      Some \<lparr>Mode = ''-rw-r--r--'', Contents = Some (sha ''a''), Parents = []\<rparr>, None) \<and>
   CallCachePathInfo ''/t/f'' (fileInfo 9200000000) \<notin>
     set (snd (snd (snapshotRegularFile (memoryStorage (\<lambda>_. False)) emptyMemory ''/t/f''
          (fileInfo 9200000000) ''a'' 10500000000 (Inr (fileInfo 9200000000)))))"
  by code_simp

lemma example_regular:
  "snapshotRegularFile (memoryStorage (\<lambda>_. False)) emptyMemory ''/t/f'' (fileInfo 0) ''a''
     10500000000 (Inr (fileInfo 0)) =
   ((Some (sha (exampleFileString
        \<lparr>Mode = ''-rw-r--r--'', Contents = Some (sha ''a''), Parents = []\<rparr>)),
     Some \<lparr>Mode = ''-rw-r--r--'', Contents = Some (sha ''a''), Parents = []\<rparr>, None),
    \<lparr>objects = [exampleFileString \<lparr>Mode = ''-rw-r--r--'', Contents = Some (sha ''a''), Parents = []\<rparr>, ''a''],
     latestSnapshots = [(''/t/f'', \<lparr>Mode = ''-rw-r--r--'', Contents = Some (sha ''a''), Parents = []\<rparr>)],
     cachedInfos = [(''/t/f'', fileInfo 0)]\<rparr>,
    [CallStoreObject 1 ''a'',
     CallStoreSnapshot ''/t/f'' \<lparr>Mode = ''-rw-r--r--'', Contents = Some (sha ''a''), Parents = []\<rparr>,
     CallCachePathInfo ''/t/f'' (fileInfo 0)])"
  by code_simp

lemma example_miss:
  "\<not> snd (snd (readCached (memoryStorage (\<lambda>_. False)) emptyMemory ''/t/f'' (fileInfo 0)))"
  by (simp add: readCached_def memoryStorage_def emptyMemory_def)

theorem snapshotRegularFile_cache_guard_witness:
  "\<not> snd (snd (readCached (memoryStorage (\<lambda>_. False)) emptyMemory ''/t/f'' (fileInfo 0))) \<and>
   CallCachePathInfo ''/t/f'' (fileInfo 0) \<in>
     set (snd (snd (snapshotRegularFile (memoryStorage (\<lambda>_. False)) emptyMemory ''/t/f''
            (fileInfo 0) ''a'' 10500000000 (Inr (fileInfo 0))))) \<and>
   (\<exists>latestInfo. (Inr (fileInfo 0) :: error + FileInfo) = Inr latestInfo \<and>
      modTime latestInfo = modTime (fileInfo 0) \<and>
      modTime latestInfo < Truncate 10500000000 second - second)"
proof -
  have called: "CallCachePathInfo ''/t/f'' (fileInfo 0) \<in>
     set (snd (snd (snapshotRegularFile (memoryStorage (\<lambda>_. False)) emptyMemory ''/t/f''
            (fileInfo 0) ''a'' 10500000000 (Inr (fileInfo 0)))))"
    unfolding example_regular by simp
  have mem: "CallCachePathInfo ''/t/f'' (fileInfo 0) \<in>
     set [CallStoreObject 1 ''a'',
          CallStoreSnapshot ''/t/f''
            \<lparr>Mode = ''-rw-r--r--'', Contents = Some (sha ''a''), Parents = []\<rparr>,
          CallCachePathInfo ''/t/f'' (fileInfo 0)]"
    by simp
  note guard = snapshotRegularFile_cache_guard [OF example_miss example_regular, THEN iffD1, OF mem]
  from guard [THEN conjunct2, THEN conjunct2]
  have "\<exists>latestInfo. (Inr (fileInfo 0) :: error + FileInfo) = Inr latestInfo \<and>
      modTime latestInfo = modTime (fileInfo 0) \<and>
      modTime latestInfo < Truncate 10500000000 second - second" .
  with example_miss called show ?thesis by blast
qed

lemma example_entries:
  "snapshotEntries (memoryStorage (\<lambda>b. take 1 b = ''f'')) emptyMemory ''/t/d'' (entries dirNode) [] =
     (Inr [(''f'', sha (exampleFileString
              \<lparr>Mode = ''-rw-r--r--'', Contents = Some (sha ''a''), Parents = []\<rparr>))],
      \<lparr>objects = [exampleFileString \<lparr>Mode = ''-rw-r--r--'', Contents = Some (sha ''a''), Parents = []\<rparr>, ''a''],
       latestSnapshots = [(''/t/d/f'', \<lparr>Mode = ''-rw-r--r--'', Contents = Some (sha ''a''), Parents = []\<rparr>)],
       cachedInfos = [(''/t/d/f'', fileInfo 0)]\<rparr>,
      [CallStoreObject 1 ''a'',
       CallStoreSnapshot ''/t/d/f'' \<lparr>Mode = ''-rw-r--r--'', Contents = Some (sha ''a''), Parents = []\<rparr>,
       CallCachePathInfo ''/t/d/f'' (fileInfo 0)])"
  by code_simp

lemma example_store_fails:
  "StoreObject' (memoryStorage (\<lambda>b. take 1 b = ''f''))
     \<lparr>objects = [exampleFileString \<lparr>Mode = ''-rw-r--r--'', Contents = Some (sha ''a''), Parents = []\<rparr>, ''a''],
      latestSnapshots = [(''/t/d/f'', \<lparr>Mode = ''-rw-r--r--'', Contents = Some (sha ''a''), Parents = []\<rparr>)],
      cachedInfos = [(''/t/d/f'', fileInfo 0)]\<rparr>
     (int (length (TreeString [(''f'', sha (exampleFileString
              \<lparr>Mode = ''-rw-r--r--'', Contents = Some (sha ''a''), Parents = []\<rparr>))])))
     (TreeString [(''f'', sha (exampleFileString
              \<lparr>Mode = ''-rw-r--r--'', Contents = Some (sha ''a''), Parents = []\<rparr>))]) =
   ((None, Some (ErrOther ''disk full'')),
    \<lparr>objects = [exampleFileString \<lparr>Mode = ''-rw-r--r--'', Contents = Some (sha ''a''), Parents = []\<rparr>, ''a''],
     latestSnapshots = [(''/t/d/f'', \<lparr>Mode = ''-rw-r--r--'', Contents = Some (sha ''a''), Parents = []\<rparr>)],
     cachedInfos = [(''/t/d/f'', fileInfo 0)]\<rparr>)"
  by code_simp

lemma example_directory_metadata:
  "snapshotFileMetadata (memoryStorage (\<lambda>b. take 1 b = ''f''))
     \<lparr>objects = [exampleFileString \<lparr>Mode = ''-rw-r--r--'', Contents = Some (sha ''a''), Parents = []\<rparr>, ''a''],
      latestSnapshots = [(''/t/d/f'', \<lparr>Mode = ''-rw-r--r--'', Contents = Some (sha ''a''), Parents = []\<rparr>)],
      cachedInfos = [(''/t/d/f'', fileInfo 0)]\<rparr>
     ''/t/d'' dirInfo None =
   ((Some (sha (exampleFileString \<lparr>Mode = ''drwxr-xr-x'', Contents = None, Parents = []\<rparr>)),
     Some \<lparr>Mode = ''drwxr-xr-x'', Contents = None, Parents = []\<rparr>, None),
    \<lparr>objects = [exampleFileString \<lparr>Mode = ''drwxr-xr-x'', Contents = None, Parents = []\<rparr>,
                exampleFileString \<lparr>Mode = ''-rw-r--r--'', Contents = Some (sha ''a''), Parents = []\<rparr>, ''a''],
     latestSnapshots = [(''/t/d'', \<lparr>Mode = ''drwxr-xr-x'', Contents = None, Parents = []\<rparr>),
                        (''/t/d/f'', \<lparr>Mode = ''-rw-r--r--'', Contents = Some (sha ''a''), Parents = []\<rparr>)],
     cachedInfos = [(''/t/d/f'', fileInfo 0)]\<rparr>,
    [CallStoreSnapshot ''/t/d'' \<lparr>Mode = ''drwxr-xr-x'', Contents = None, Parents = []\<rparr>])"
  by code_simp

theorem snapshotDirectory_discards_store_error_witness:
  "fst (StoreObject' (memoryStorage (\<lambda>b. take 1 b = ''f''))
     \<lparr>objects = [exampleFileString \<lparr>Mode = ''-rw-r--r--'', Contents = Some (sha ''a''), Parents = []\<rparr>, ''a''],
      latestSnapshots = [(''/t/d/f'', \<lparr>Mode = ''-rw-r--r--'', Contents = Some (sha ''a''), Parents = []\<rparr>)],
      cachedInfos = [(''/t/d/f'', fileInfo 0)]\<rparr>
     (int (length (TreeString [(''f'', sha (exampleFileString
              \<lparr>Mode = ''-rw-r--r--'', Contents = Some (sha ''a''), Parents = []\<rparr>))])))
     (TreeString [(''f'', sha (exampleFileString
              \<lparr>Mode = ''-rw-r--r--'', Contents = Some (sha ''a''), Parents = []\<rparr>))])) =
     (None, Some (ErrOther ''disk full'')) \<and>
   fst (snapshotDirectory (memoryStorage (\<lambda>b. take 1 b = ''f'')) emptyMemory ''/t/d'' dirInfo dirNode) =
     (Some (sha (exampleFileString \<lparr>Mode = ''drwxr-xr-x'', Contents = None, Parents = []\<rparr>)),
      Some \<lparr>Mode = ''drwxr-xr-x'', Contents = None, Parents = []\<rparr>, None) \<and>
   fst (Current (memoryStorage (\<lambda>b. take 1 b = ''f'')) emptyMemory ''/t/d'' dirNode) =
     (Some (sha (exampleFileString \<lparr>Mode = ''drwxr-xr-x'', Contents = None, Parents = []\<rparr>)),
      Some \<lparr>Mode = ''drwxr-xr-x'', Contents = None, Parents = []\<rparr>, None)"
proof -
  have current: "Current (memoryStorage (\<lambda>b. take 1 b = ''f'')) emptyMemory ''/t/d'' dirNode =
      snapshotDirectory (memoryStorage (\<lambda>b. take 1 b = ''f'')) emptyMemory ''/t/d'' dirInfo dirNode"
    by (simp add: dirNode_def dirInfo_def memoryStorage_def)
  have rd: "readDirError dirNode = None"
    by (simp add: dirNode_def)
  note run = snapshotDirectory_discards_store_error
    [OF rd example_entries example_store_fails, where info = dirInfo]
  show ?thesis
    unfolding current run example_store_fails example_directory_metadata by simp
qed

section \<open>Properties of publishing\<close>

lemma pullMirrors_append:
  "pullMirrors env i (xs @ ys) cur =
     (case pullMirrors env i xs cur of Inl e \<Rightarrow> Inl e | Inr c \<Rightarrow> pullMirrors env i ys c)"
proof (induction xs arbitrary: cur)
  case Nil
  then show ?case by simp
next
  case (Cons m xs)
  obtain sg sd where cur: "cur = (sg, sd)" by (cases cur)
  show ?case
    by (simp add: cur Cons.IH split: sum.splits)
qed

lemma pullIdentities_pullMirrors:
  "pullIdentities env i sets cur =
     pullMirrors env i
       (concat (map PullMirrors (filter (\<lambda>idSetting. Name idSetting = IdentityString i) sets))) cur"
  by (induction sets arbitrary: cur) (simp_all add: pullMirrors_append split: sum.splits)

lemma pullFromAndVerify_Inr:
  assumes "pullFromAndVerify env m i sg sd = Inr (sg', sd')" and "Verify env i sg = Inr sd"
  shows "pullFrom env m i sg = Inr sg' \<and> Verify env i sg' = Inr sd'"
  using assms
  by (auto simp: pullFromAndVerify_def Equal_iff split: sum.splits if_splits)

lemma pullFromAndVerify_Inl:
  "(\<exists>e. pullFromAndVerify env m i sg sd = Inl e) \<longleftrightarrow>
   (case pullFrom env m i sg of
      Inl _ \<Rightarrow> True
    | Inr new \<Rightarrow> \<not> (new = sg \<or> (case Verify env i new of Inl _ \<Rightarrow> False | Inr _ \<Rightarrow> True)))"
  by (auto simp: pullFromAndVerify_def Equal_iff split: sum.splits)

lemma pullMirrors_Inr:
  "pullMirrors env i ms (sg, sd) = Inr (sg', sd') \<Longrightarrow> Verify env i sg = Inr sd \<Longrightarrow>
   sg' = lastSignature env i ms sg \<and> Verify env i sg' = Inr sd' \<and> mirrorsSucceed env i ms sg"
proof (induction ms arbitrary: sg sd)
  case Nil
  then show ?case by simp
next
  case (Cons m ms)
  from Cons.prems(1) obtain sg1 sd1 where
    step: "pullFromAndVerify env m i sg sd = Inr (sg1, sd1)"
    and rest: "pullMirrors env i ms (sg1, sd1) = Inr (sg', sd')"
    by (auto split: sum.splits)
  from pullFromAndVerify_Inr [OF step Cons.prems(2)]
  have pf: "pullFrom env m i sg = Inr sg1" and v: "Verify env i sg1 = Inr sd1" by simp_all
  from Cons.IH [OF rest v] show ?case
    using pf v by auto
qed

lemma pullMirrors_Inl:
  "\<not> mirrorsSucceed env i ms sg \<Longrightarrow> Verify env i sg = Inr sd \<Longrightarrow>
   \<exists>e. pullMirrors env i ms (sg, sd) = Inl e"
proof (induction ms arbitrary: sg sd)
  case Nil
  then show ?case by simp
next
  case (Cons m ms)
  show ?case
  proof (cases "pullFromAndVerify env m i sg sd")
    case (Inl e)
    then show ?thesis by simp
  next
    case (Inr cur)
    obtain sg1 sd1 where cur: "cur = (sg1, sd1)" by (cases cur)
    from pullFromAndVerify_Inr [OF Inr [unfolded cur] Cons.prems(2)]
    have pf: "pullFrom env m i sg = Inr sg1" and v: "Verify env i sg1 = Inr sd1" by simp_all
    from Cons.prems(1) pf v have "\<not> mirrorsSucceed env i ms sg1" by auto
    from Cons.IH [OF this v] show ?thesis
      by (simp add: Inr cur)
  qed
qed

text \<open>
  What holds of \<open>Pull\<close> when the failure of a mirror is an error that \<open>pullFrom\<close> or
  \<open>Verify\<close> returns. A \<open>Pull\<close> that succeeds leaves as the latest signature of the identity
  the signature it returns, which is the answer of the last mirror in the chain of the
  mirrors (each asked with the signature reached before it; the signature before the pull
  when there is no mirror) and which \<open>Verify\<close> accepts, with the signed snapshot returned.
  When the verification of the previous signature fails, or \<open>pullFrom\<close> returns an error
  for a mirror, or the verification of a new signature fails, \<open>Pull\<close> returns an error
  and the index is as it was before. The state in which a helper process ends is no part
  of this: \<open>pullFrom\<close> does not read it.
\<close>

theorem Pull_ratchet:
  "(Pull env settings idx ident = (Inr (signature, signed), idx') \<longrightarrow>
      LatestSignatureForIdentity env idx' ident = Inr signature \<and>
      idx' = idx(IdentityString ident := signature) \<and>
      signature =
        lastSignature env ident (mirrorsOf settings ident) (idx (IdentityString ident)) \<and>
      Verify env ident signature = Inr signed) \<and>
   ((\<exists>e. Verify env ident (idx (IdentityString ident)) = Inl e) \<or>
    \<not> mirrorsSucceed env ident (mirrorsOf settings ident) (idx (IdentityString ident)) \<longrightarrow>
      (\<exists>e. Pull env settings idx ident = (Inl e, idx)))"
proof -
  let ?sg0 = "idx (IdentityString ident)"
  let ?ms = "mirrorsOf settings ident"
  have loops: "\<And>cur. (case pullIdentities env ident (Identities settings) cur of
                  Inl e \<Rightarrow> Inl e
                | Inr c \<Rightarrow> pullMirrors env ident (AdditionalPullMirrors settings) c) =
               pullMirrors env ident ?ms cur"
    by (simp add: mirrorsOf_def pullMirrors_append pullIdentities_pullMirrors)
  have Pull_eq: "Pull env settings idx ident =
      (case LatestSignatureForIdentity env idx ident of
         Inl e \<Rightarrow>
           (Inl (''failure looking up the previous signature for '' @
                 quote (IdentityString ident) @ '': '' @ e), idx)
       | Inr signature0 \<Rightarrow>
      (case Verify env ident signature0 of
         Inl e \<Rightarrow>
           (Inl (''failure verifying the previous signature for '' @
                 quote (IdentityString ident) @ '': '' @ e), idx)
       | Inr signed0 \<Rightarrow>
      (case pullMirrors env ident ?ms (signature0, signed0) of
         Inl e \<Rightarrow> (Inl e, idx)
       | Inr (sg, sd) \<Rightarrow>
      (case UpdateSignatureForIdentity env idx ident sg of
         (Some e, idx') \<Rightarrow> (Inl (updateFailedMsg ident sg e), idx')
       | (None, idx') \<Rightarrow> (Inr (sg, sd), idx')))))"
    unfolding Pull_def
    by (simp add: loops [symmetric] split: sum.splits)
  have success: "Pull env settings idx ident = (Inr (signature, signed), idx') \<longrightarrow>
      LatestSignatureForIdentity env idx' ident = Inr signature \<and>
      idx' = idx(IdentityString ident := signature) \<and>
      signature = lastSignature env ident ?ms ?sg0 \<and>
      Verify env ident signature = Inr signed"
  proof
    assume ok: "Pull env settings idx ident = (Inr (signature, signed), idx')"
    from ok have le: "latestError env ident = None"
      by (auto simp: Pull_eq LatestSignatureForIdentity_def split: option.splits)
    from ok le obtain sd0 where v0: "Verify env ident ?sg0 = Inr sd0"
      by (auto simp: Pull_eq LatestSignatureForIdentity_def split: sum.splits)
    from ok le v0 have run: "pullMirrors env ident ?ms (?sg0, sd0) = Inr (signature, signed)"
      and upd: "UpdateSignatureForIdentity env idx ident signature = (None, idx')"
      by (auto simp: Pull_eq LatestSignatureForIdentity_def split: sum.splits option.splits prod.splits)
    from upd have idx': "idx' = idx(IdentityString ident := signature)"
      by (auto simp: UpdateSignatureForIdentity_def split: option.splits)
    from pullMirrors_Inr [OF run v0] idx' le show
      "LatestSignatureForIdentity env idx' ident = Inr signature \<and>
       idx' = idx(IdentityString ident := signature) \<and>
       signature = lastSignature env ident ?ms ?sg0 \<and>
       Verify env ident signature = Inr signed"
      by (auto simp: LatestSignatureForIdentity_def)
  qed
  have failure: "(\<exists>e. Verify env ident ?sg0 = Inl e) \<or> \<not> mirrorsSucceed env ident ?ms ?sg0 \<longrightarrow>
      (\<exists>e. Pull env settings idx ident = (Inl e, idx))"
  proof
    assume f: "(\<exists>e. Verify env ident ?sg0 = Inl e) \<or> \<not> mirrorsSucceed env ident ?ms ?sg0"
    show "\<exists>e. Pull env settings idx ident = (Inl e, idx)"
    proof (cases "latestError env ident")
      case (Some e)
      then show ?thesis by (simp add: Pull_eq LatestSignatureForIdentity_def)
    next
      case None
      show ?thesis
      proof (cases "Verify env ident ?sg0")
        case (Inl e)
        then show ?thesis by (simp add: Pull_eq LatestSignatureForIdentity_def None)
      next
        case (Inr sd0)
        with f have "\<not> mirrorsSucceed env ident ?ms ?sg0" by simp
        from pullMirrors_Inl [OF this Inr] obtain e where
          "pullMirrors env ident ?ms (?sg0, sd0) = Inl e" ..
        then show ?thesis by (simp add: Pull_eq LatestSignatureForIdentity_def None Inr)
      qed
    qed
  qed
  from success failure show ?thesis by blast
qed

subsection \<open>Publishing with the example helpers\<close>

lemmas publish_example_defs =
  exampleHelpers_def exampleRun_def exampleParseHash_def exampleIdentity_def exampleSettings_def
  exampleIndex_def mirror_def sha_def IdentityString_def HashString_def

lemma example_pull:
  "Pull exampleHelpers (exampleSettings []) exampleIndex exampleIdentity =
     (Inr (Some (sha ''s1''), Some (sha ''signed by s1'')),
      exampleIndex(''ex::u'' := Some (sha ''s1'')))"
  by (simp add: Pull_def LatestSignatureForIdentity_def UpdateSignatureForIdentity_def
      pullFromAndVerify_def pullFrom_def readHelper_def pullHelperCommand_def pullArgs_def
      Equal_def publish_example_defs)

lemma example_pull_rejected:
  "\<not> mirrorsSucceed exampleHelpers exampleIdentity
       (mirrorsOf (exampleSettings [mirror ''bad'']) exampleIdentity) (exampleIndex ''ex::u'')"
  by (simp add: mirrorsOf_def pullFrom_def readHelper_def pullHelperCommand_def pullArgs_def
      publish_example_defs)

theorem Pull_ratchet_witness:
  "Pull exampleHelpers (exampleSettings []) exampleIndex exampleIdentity =
     (Inr (Some (sha ''s1''), Some (sha ''signed by s1'')),
      exampleIndex(''ex::u'' := Some (sha ''s1''))) \<and>
   LatestSignatureForIdentity exampleHelpers (exampleIndex(''ex::u'' := Some (sha ''s1'')))
     exampleIdentity = Inr (Some (sha ''s1'')) \<and>
   Some (sha ''s1'') =
     lastSignature exampleHelpers exampleIdentity (mirrorsOf (exampleSettings []) exampleIdentity)
       (exampleIndex ''ex::u'') \<and>
   \<not> mirrorsSucceed exampleHelpers exampleIdentity
       (mirrorsOf (exampleSettings [mirror ''bad'']) exampleIdentity) (exampleIndex ''ex::u'') \<and>
   (\<exists>e. Pull exampleHelpers (exampleSettings [mirror ''bad'']) exampleIndex exampleIdentity =
      (Inl e, exampleIndex))"
proof -
  have name: "IdentityString exampleIdentity = ''ex::u''"
    by (simp add: IdentityString_def exampleIdentity_def)
  note good = Pull_ratchet [where env = exampleHelpers and settings = "exampleSettings []"
      and idx = exampleIndex and ident = exampleIdentity and signature = "Some (sha ''s1'')"
      and signed = "Some (sha ''signed by s1'')"
      and idx' = "exampleIndex(''ex::u'' := Some (sha ''s1''))", unfolded name]
  note bad = Pull_ratchet [where env = exampleHelpers
      and settings = "exampleSettings [mirror ''bad'']"
      and idx = exampleIndex and ident = exampleIdentity, unfolded name]
  from good example_pull have
    "LatestSignatureForIdentity exampleHelpers (exampleIndex(''ex::u'' := Some (sha ''s1'')))
       exampleIdentity = Inr (Some (sha ''s1''))"
    and "Some (sha ''s1'') =
       lastSignature exampleHelpers exampleIdentity
         (mirrorsOf (exampleSettings []) exampleIdentity) (exampleIndex ''ex::u'')"
    by blast+
  moreover from bad example_pull_rejected have
    "\<exists>e. Pull exampleHelpers (exampleSettings [mirror ''bad'']) exampleIndex exampleIdentity =
       (Inl e, exampleIndex)"
    by blast
  ultimately show ?thesis
    using example_pull example_pull_rejected by blast
qed

text \<open>
  C6 fails on the code. \<open>Sign\<close> and \<open>pullFrom\<close> start the helper and read its standard
  output, and never wait for it: a sign helper that writes a hash and ends with status 1,
  and a pull helper that writes a hash and is killed, both give a successful result, and
  \<open>Sign\<close> updates the index.
\<close>

theorem helper_exit_status_not_read:
  "exitState (run exampleHelpers ''rvcs-sign-ex'' [''u'', ''sha256:h'']) = Exited 1 \<and>
   Sign exampleHelpers exampleIndex (Some exampleIdentity) (Some (sha ''h'')) None =
     (Inr (Some (sha ''sig'')), exampleIndex(''ex::u'' := Some (sha ''sig''))) \<and>
   exitState (run exampleHelpers ''rvcs-pull-kill'' [''ex::u'', ''sha256:s0'']) = Killed \<and>
   pullFrom exampleHelpers (mirror ''kill'') exampleIdentity (Some (sha ''s0'')) =
     Inr (Some (sha ''s2''))"
  by (simp add: Sign_def signHelperCommand_def signArgs_def UpdateSignatureForIdentity_def
      pullFrom_def readHelper_def pullHelperCommand_def pullArgs_def publish_example_defs)

text \<open>
  C7 fails on the code. For the identity \<open>ex::u\<close> and no previous signature \<open>Sign\<close>
  runs \<open>rvcs-sign-ex\<close> with the two arguments \<open>u\<close> and the hash: the first argument is
  the contents of the identity without the namespace, and there is no third argument. With
  a previous signature the third argument is its textual form.
\<close>

theorem Sign_argument_vector:
  "IdentityString exampleIdentity = ''ex::u'' \<and>
   signHelperCommand exampleIdentity = ''rvcs-sign-ex'' \<and>
   signArgs exampleIdentity (sha ''h'') None = [''u'', ''sha256:h''] \<and>
   signArgs exampleIdentity (sha ''h'') (Some (sha ''s0'')) = [''u'', ''sha256:h'', ''sha256:s0''] \<and>
   Sign env idx (Some exampleIdentity) (Some (sha ''h'')) None =
     (case readHelper env ''sign'' ''rvcs-sign-ex'' [''u'', ''sha256:h''] of
        Inl e \<Rightarrow> (Inl e, idx)
      | Inr signature \<Rightarrow>
          (case UpdateSignatureForIdentity env idx exampleIdentity signature of
             (Some e, idx') \<Rightarrow> (Inl (updateFailedMsg exampleIdentity signature e), idx')
           | (None, idx') \<Rightarrow> (Inr signature, idx')))"
  by (simp add: Sign_def signHelperCommand_def signArgs_def exampleIdentity_def sha_def
      IdentityString_def HashString_def split: sum.splits prod.splits option.splits)

text \<open>
  C5 fails on the code. The only mirror of the identity \<open>ex::u\<close> has the scheme \<open>kill\<close>:
  its pull helper, asked with the latest signature \<open>sha256:s0\<close>, writes \<open>sha256:s2\<close> and
  is killed. The pull helper has failed, and \<open>Pull\<close> returns no error: it returns the new
  signature, which \<open>Verify\<close> accepts, and moves the latest signature of the identity from
  \<open>sha256:s0\<close> to \<open>sha256:s2\<close>.
\<close>

theorem Pull_killed_helper_advances_index:
  "pullHelperCommand \<lparr>Scheme = ''kill''\<rparr> = ''rvcs-pull-kill'' \<and>
   pullArgs \<lparr>MirrorURL = Some \<lparr>Scheme = ''kill''\<rparr>, HelperFlags = []\<rparr> exampleIdentity
     (Some (sha ''s0'')) = [''ex::u'', ''sha256:s0''] \<and>
   exitState (run exampleHelpers ''rvcs-pull-kill'' [''ex::u'', ''sha256:s0'']) = Killed \<and>
   LatestSignatureForIdentity exampleHelpers exampleIndex exampleIdentity =
     Inr (Some (sha ''s0'')) \<and>
   Pull exampleHelpers \<lparr>Identities = [], AdditionalPullMirrors = [mirror ''kill'']\<rparr>
     exampleIndex exampleIdentity =
     (Inr (Some (sha ''s2''), Some (sha ''signed by s2'')),
      exampleIndex(''ex::u'' := Some (sha ''s2''))) \<and>
   LatestSignatureForIdentity exampleHelpers
     (snd (Pull exampleHelpers \<lparr>Identities = [], AdditionalPullMirrors = [mirror ''kill'']\<rparr>
             exampleIndex exampleIdentity))
     exampleIdentity = Inr (Some (sha ''s2''))"
  by (simp add: Pull_def LatestSignatureForIdentity_def UpdateSignatureForIdentity_def
      pullFromAndVerify_def pullFrom_def readHelper_def pullHelperCommand_def pullArgs_def
      Equal_def publish_example_defs)

end
